theory Spec2Isabelle
  imports
    Complex_Main
    "HOL-Library.Multiset"
    "HOL-Library.Char_ord"
    "HOL-Library.List_Lexorder"
begin

section \<open>Values, completions and observable events\<close>

text \<open>
  A JavaScript \<open>number\<close> is a double: \<open>NaN\<close>, an infinity, or a finite value, kept
  here as the real number it stands for. Arithmetic on numbers rounds its exact result
  to a double (\<open>round_double\<close> below). The two zeros are not told apart; nothing in the
  code depends on the sign of a zero.
\<close>

datatype number = NaN | Finite real | PosInfinity | NegInfinity

text \<open>
  What an identifier can hold where the model has to look one up by name: a string, a
  number, some other object (a function, a form, a parse result), or \<open>undefined\<close>.
\<close>

datatype jsval = JString string | JNumber number | JObject | JUndefined

text \<open>One issue of a failed zod parse: the field it is about and its message.\<close>

datatype issue = Issue (issue_path: string) (issue_message: string)

text \<open>
  Everything the code can throw. \<open>Error msg\<close> is \<open>new Error(msg)\<close>; it has a
  message and no cause. \<open>ReferenceError\<close> is the read of a name that nothing binds,
  \<open>TypeError\<close> the call of a value that is no function. \<open>DriverError\<close> is whatever
  the database driver rejects with (connection refused, an SQL error). \<open>NEXT_REDIRECT\<close>
  is what the framework's \<open>redirect(path)\<close> throws to leave the action.
\<close>

datatype thrown =
    Error string
  | ReferenceError string
  | TypeError string
  | ZodError "issue list"
  | DriverError string
  | NEXT_REDIRECT string

datatype 'a completion = Return 'a | Throw thrown

text \<open>
  The statements the code sends, one constructor per SQL text of the source, with the
  values bound to \<open>$1\<close>, \<open>$2\<close>, ... in the order of the source.
\<close>

datatype statement =
    SELECT_revenue
  | SELECT_latest_invoices
  | SELECT_COUNT_invoices
  | SELECT_COUNT_customers
  | SELECT_SUM_by_status
  | SELECT_filtered_invoices string int int
  | SELECT_COUNT_filtered_invoices string
  | SELECT_invoice_by_id string
  | SELECT_customers
  | SELECT_filtered_customers string
  | SELECT_user_by_email string
  | INSERT_invoice jsval number jsval string
  | UPDATE_invoice string number string string
  | DELETE_invoice string

datatype event =
    Connected
  | ConnectFailed thrown
  | Query statement
  | End
  | ConsoleLog string
  | ConsoleError string thrown
  | RevalidatePath string

section \<open>Rounding to a double\<close>

text \<open>
  The result of \<open>*\<close> and \<open>/\<close> on numbers is the exact result rounded to the nearest
  double, ties to the even significand. A double has a significand of 53 bits; the
  smallest spacing between doubles is \<open>2 ^ - 1074\<close>; a result that rounds to
  \<open>2 ^ 1024\<close> or more is an infinity.
\<close>

text \<open>The number of binary digits of a natural number.\<close>

fun bit_length :: "nat \<Rightarrow> nat" where
  "bit_length n = (if n = 0 then 0 else Suc (bit_length (n div 2)))"

declare bit_length.simps [simp del]

definition pow2 :: "int \<Rightarrow> real" where
  "pow2 e = (if 0 \<le> e then 2 ^ nat e else 1 / 2 ^ nat (- e))"

text \<open>
  The exponent \<open>e\<close> with \<open>2 ^ e \<le> a < 2 ^ (e + 1)\<close>, for a positive \<open>a\<close>: from the
  digits of the integer part of \<open>a\<close> when \<open>a\<close> is at least 1, and of \<open>1 / a\<close>
  otherwise.
\<close>

definition binade :: "real \<Rightarrow> int" where
  "binade a =
     (if 1 \<le> a then int (bit_length (nat \<lfloor>a\<rfloor>)) - 1
      else if a * pow2 (int (bit_length (nat \<lfloor>1 / a\<rfloor>)) - 1) = 1
           then 1 - int (bit_length (nat \<lfloor>1 / a\<rfloor>))
           else - int (bit_length (nat \<lfloor>1 / a\<rfloor>)))"

definition round_half_even :: "real \<Rightarrow> int" where
  "round_half_even x =
     (if x - real_of_int \<lfloor>x\<rfloor> < 1 / 2 then \<lfloor>x\<rfloor>
      else if 1 / 2 < x - real_of_int \<lfloor>x\<rfloor> then \<lfloor>x\<rfloor> + 1
      else if even \<lfloor>x\<rfloor> then \<lfloor>x\<rfloor> else \<lfloor>x\<rfloor> + 1)"

text \<open>
  The double \<open>m * 2 ^ q\<close> for a significand \<open>m\<close> of at most \<open>2 ^ 53\<close>, or the
  infinity when that is \<open>2 ^ 1024\<close> or more.
\<close>

definition scaled :: "int \<Rightarrow> int \<Rightarrow> number" where
  "scaled q m =
     (if 971 < q \<or> q = 971 \<and> m = 9007199254740992 then PosInfinity
      else Finite (real_of_int m * pow2 q))"

text \<open>
  A positive real, rounded: the spacing of the doubles around it is \<open>2 ^ q\<close> with
  \<open>q\<close> its exponent less 52, and not below \<open>- 1074\<close>.
\<close>

definition round_magnitude :: "real \<Rightarrow> number" where
  "round_magnitude a =
     scaled (max (binade a - 52) (- 1074))
       (round_half_even (a / pow2 (max (binade a - 52) (- 1074))))"

definition negate :: "number \<Rightarrow> number" where
  "negate n =
     (case n of
        NaN \<Rightarrow> NaN
      | Finite r \<Rightarrow> Finite (- r)
      | PosInfinity \<Rightarrow> NegInfinity
      | NegInfinity \<Rightarrow> PosInfinity)"

definition round_double :: "real \<Rightarrow> number" where
  "round_double x =
     (if x = 0 then Finite 0
      else if x < 0 then negate (round_magnitude (- x))
      else round_magnitude x)"

section \<open>The backing store\<close>

text \<open>
  Tables as lists of rows, as in \<open>invoices(id, customer_id, amount int, status text,
  date date)\<close>, \<open>customers(id, name, email, image_url)\<close>, \<open>revenue(month, revenue)\<close>
  and \<open>users(id, email, password)\<close>. A date is a day number, as the engine stores it.
\<close>

record invoice =
  inv_id :: string
  inv_customer_id :: string
  inv_amount :: int
  inv_status :: string
  inv_date :: int

record customer =
  cust_id :: string
  cust_name :: string
  cust_email :: string
  cust_image_url :: string

record Revenue =
  rev_month :: string
  rev_revenue :: int

record User =
  user_id :: string
  user_email :: string
  user_password :: string

record database =
  invoices :: "invoice list"
  customers :: "customer list"
  revenue :: "Revenue list"
  users :: "User list"

text \<open>
  What the code depends on and does not contain: whether the server accepts the
  connection and each statement, the engine's \<open>ILIKE\<close> operator (text, then pattern)
  and its casts between text and the column types, the id the engine gives a new row,
  the \<open>formatCurrency\<close> helper of the utilities module, JavaScript's \<open>Number\<close> on
  strings, and the clock (\<open>new Date().toISOString()\<close>).
\<close>

record env =
  connect_fault :: "thrown option"
  query_fault :: "statement \<Rightarrow> thrown option"
  ILIKE :: "string \<Rightarrow> string \<Rightarrow> bool"
  int_text :: "int \<Rightarrow> string"
  date_text :: "int \<Rightarrow> string"
  text_date :: "string \<Rightarrow> int option"
  default_id :: string
  formatCurrency :: "int \<Rightarrow> string"
  Number :: "string \<Rightarrow> number"
  now_iso :: string

section \<open>Asynchronous code as a function of the store\<close>

text \<open>
  An \<open>async\<close> body is run to its completion: it takes the store and gives its completion
  (a returned value or a thrown one), the events it produced in order, and the store it
  leaves.
\<close>

type_synonym 'a io = "database \<Rightarrow> 'a completion \<times> event list \<times> database"

definition completion :: "'a completion \<times> event list \<times> database \<Rightarrow> 'a completion" where
  "completion r = fst r"

definition events :: "'a completion \<times> event list \<times> database \<Rightarrow> event list" where
  "events r = fst (snd r)"

definition store :: "'a completion \<times> event list \<times> database \<Rightarrow> database" where
  "store r = snd (snd r)"

definition io_return :: "'a \<Rightarrow> 'a io" where
  "io_return v = (\<lambda>db. (Return v, [], db))"

definition io_throw :: "thrown \<Rightarrow> 'a io" where
  "io_throw e = (\<lambda>db. (Throw e, [], db))"

definition io_bind :: "'a io \<Rightarrow> ('a \<Rightarrow> 'b io) \<Rightarrow> 'b io" where
  "io_bind m f = (\<lambda>db.
     case m db of
       (Throw e, t, db') \<Rightarrow> (Throw e, t, db')
     | (Return v, t, db') \<Rightarrow> (case f v db' of (c, t', db'') \<Rightarrow> (c, t @ t', db'')))"

definition emit :: "event \<Rightarrow> unit io" where
  "emit ev = (\<lambda>db. (Return (), [ev], db))"

text \<open>
  \<open>try { body } catch (error) { handler } finally { finalizer }\<close>: the handler runs when
  the body throws, the finalizer runs whatever happened, and a finalizer that throws
  replaces the completion.
\<close>

definition try_catch_finally :: "'a io \<Rightarrow> (thrown \<Rightarrow> 'a io) \<Rightarrow> unit io \<Rightarrow> 'a io" where
  "try_catch_finally body handler finalizer = (\<lambda>db.
     case (case body db of
             (Throw e, t, db') \<Rightarrow> (case handler e db' of (c, t', db'') \<Rightarrow> (c, t @ t', db''))
           | (Return v, t, db') \<Rightarrow> (Return v, t, db')) of
       (c, t, db') \<Rightarrow>
         (case finalizer db' of
            (Throw e, t', db'') \<Rightarrow> (Throw e, t @ t', db'')
          | (Return u, t', db'') \<Rightarrow> (c, t @ t', db'')))"

subsection \<open>The driver's client\<close>

text \<open>
  \<open>client.connect()\<close>, \<open>client.query(text, values)\<close> and \<open>client.end()\<close>. A query gives a
  promise, here the settled one: \<open>Inl\<close> the rejection, \<open>Inr\<close> the result. The statement
  is rejected when the server refuses it or when its own evaluation fails.
\<close>

definition client_connect :: "env \<Rightarrow> unit io" where
  "client_connect E =
     (case connect_fault E of
        None \<Rightarrow> emit Connected
      | Some e \<Rightarrow> io_bind (emit (ConnectFailed e)) (\<lambda>u. io_throw e))"

definition statement_result ::
  "env \<Rightarrow> statement \<Rightarrow> (database \<Rightarrow> thrown + 'r) \<Rightarrow> database \<Rightarrow> thrown + 'r" where
  "statement_result E stmt sem db =
     (case query_fault E stmt of Some e \<Rightarrow> Inl e | None \<Rightarrow> sem db)"

definition client_query ::
  "env \<Rightarrow> statement \<Rightarrow> (database \<Rightarrow> thrown + 'r) \<Rightarrow> (thrown + 'r) io" where
  "client_query E stmt sem = (\<lambda>db. (Return (statement_result E stmt sem db), [Query stmt], db))"

definition client_update ::
  "env \<Rightarrow> statement \<Rightarrow> (database \<Rightarrow> thrown + database) \<Rightarrow> (thrown + unit) io" where
  "client_update E stmt sem = (\<lambda>db.
     case statement_result E stmt sem db of
       Inl e \<Rightarrow> (Return (Inl e), [Query stmt], db)
     | Inr db' \<Rightarrow> (Return (Inr ()), [Query stmt], db'))"

definition await :: "thrown + 'r \<Rightarrow> 'r io" where
  "await p = (case p of Inl e \<Rightarrow> io_throw e | Inr r \<Rightarrow> io_return r)"

definition client_end :: "unit io" where
  "client_end = emit End"

text \<open>\<open>connectClient\<close> of the data module: a new client per call, connected, returned.\<close>

definition connectClient :: "env \<Rightarrow> unit io" where
  "connectClient E = io_bind (client_connect E) (\<lambda>u. io_return ())"

section \<open>The statements over the tables\<close>

text \<open>\<open>SELECT * FROM revenue\<close>.\<close>

definition select_revenue :: "database \<Rightarrow> thrown + Revenue list" where
  "select_revenue db = Inr (revenue db)"

text \<open>\<open>FROM invoices JOIN customers ON invoices.customer_id = customers.id\<close>.\<close>

definition invoices_JOIN_customers :: "database \<Rightarrow> (invoice \<times> customer) list" where
  "invoices_JOIN_customers db =
     concat (map (\<lambda>i. map (\<lambda>c. (i, c))
                         (filter (\<lambda>c. inv_customer_id i = cust_id c) (customers db)))
                 (invoices db))"

text \<open>
  \<open>ORDER BY invoices.date DESC\<close>. Rows of one date stay in the order of the join; an
  engine is free to order them otherwise.
\<close>

definition ORDER_BY_date_DESC :: "(invoice \<times> customer) list \<Rightarrow> (invoice \<times> customer) list" where
  "ORDER_BY_date_DESC rows = sort_key (\<lambda>r. - inv_date (fst r)) rows"

text \<open>
  The five latest invoices: \<open>invoices.amount, customers.name, customers.image_url,
  customers.email, invoices.id\<close> of the join, \<open>ORDER BY invoices.date DESC LIMIT 5\<close>.
  The row type is the same before and after the amount is formatted, up to the type of
  the amount; \<open>{...row, amount: v}\<close> is the row with that one field replaced.
\<close>

record 'a LatestInvoice =
  li_amount :: 'a
  li_name :: string
  li_image_url :: string
  li_email :: string
  li_id :: string

definition latest_invoice_row :: "invoice \<times> customer \<Rightarrow> int LatestInvoice" where
  "latest_invoice_row r =
     (case r of (i, c) \<Rightarrow>
        \<lparr>li_amount = inv_amount i, li_name = cust_name c, li_image_url = cust_image_url c,
         li_email = cust_email c, li_id = inv_id i\<rparr>)"

definition select_latest_invoices :: "database \<Rightarrow> thrown + int LatestInvoice list" where
  "select_latest_invoices db =
     Inr (map latest_invoice_row (take 5 (ORDER_BY_date_DESC (invoices_JOIN_customers db))))"

text \<open>
  The three statements of \<open>fetchCardData\<close>. A \<open>SUM\<close> over no rows is \<open>NULL\<close>, here
  \<open>None\<close>.
\<close>

definition select_count_invoices :: "database \<Rightarrow> thrown + nat" where
  "select_count_invoices db = Inr (length (invoices db))"

definition select_count_customers :: "database \<Rightarrow> thrown + nat" where
  "select_count_customers db = Inr (length (customers db))"

definition SUM_CASE_status :: "string \<Rightarrow> invoice list \<Rightarrow> int" where
  "SUM_CASE_status s rows = sum_list (map (\<lambda>i. if inv_status i = s then inv_amount i else 0) rows)"

definition select_sum_by_status :: "database \<Rightarrow> thrown + (int option \<times> int option)" where
  "select_sum_by_status db =
     Inr (if invoices db = [] then (None, None)
          else (Some (SUM_CASE_status ''paid'' (invoices db)),
                Some (SUM_CASE_status ''pending'' (invoices db))))"

text \<open>
  The search condition of both invoice searches: the one pattern against name, email,
  amount as text, date as text and status.
\<close>

definition invoice_search :: "env \<Rightarrow> string \<Rightarrow> invoice \<times> customer \<Rightarrow> bool" where
  "invoice_search E pat r =
     (case r of (i, c) \<Rightarrow>
        ILIKE E (cust_name c) pat \<or>
        ILIKE E (cust_email c) pat \<or>
        ILIKE E (int_text E (inv_amount i)) pat \<or>
        ILIKE E (date_text E (inv_date i)) pat \<or>
        ILIKE E (inv_status i) pat)"

definition matching_invoices :: "env \<Rightarrow> database \<Rightarrow> string \<Rightarrow> (invoice \<times> customer) list" where
  "matching_invoices E db pat = filter (invoice_search E pat) (invoices_JOIN_customers db)"

record InvoicesTable =
  it_id :: string
  it_amount :: int
  it_date :: int
  it_status :: string
  it_name :: string
  it_email :: string
  it_image_url :: string

definition invoices_table_row :: "invoice \<times> customer \<Rightarrow> InvoicesTable" where
  "invoices_table_row r =
     (case r of (i, c) \<Rightarrow>
        \<lparr>it_id = inv_id i, it_amount = inv_amount i, it_date = inv_date i,
         it_status = inv_status i, it_name = cust_name c, it_email = cust_email c,
         it_image_url = cust_image_url c\<rparr>)"

text \<open>
  The select of \<open>fetchFilteredInvoices\<close>, ending in \<open>LIMIT $2 OFFSET $3\<close>. The engine
  rejects a negative limit or offset.
\<close>

definition select_filtered_invoices ::
  "env \<Rightarrow> string \<Rightarrow> int \<Rightarrow> int \<Rightarrow> database \<Rightarrow> thrown + InvoicesTable list" where
  "select_filtered_invoices E pat row_limit row_offset db =
     (if row_limit < 0 then Inl (DriverError ''LIMIT must not be negative'')
      else if row_offset < 0 then Inl (DriverError ''OFFSET must not be negative'')
      else Inr (map invoices_table_row
                  (take (nat row_limit) (drop (nat row_offset)
                     (ORDER_BY_date_DESC (matching_invoices E db pat))))))"

text \<open>The count of \<open>fetchInvoicesPages\<close>: one row, its \<open>count\<close> column.\<close>

definition select_count_filtered_invoices :: "env \<Rightarrow> string \<Rightarrow> database \<Rightarrow> thrown + nat" where
  "select_count_filtered_invoices E pat db = Inr (length (matching_invoices E db pat))"

text \<open>\<open>SELECT id, customer_id, amount, status FROM invoices WHERE id = $1\<close>.\<close>

record 'a InvoiceForm =
  if_id :: string
  if_customer_id :: string
  if_amount :: 'a
  if_status :: string

definition invoice_form_row :: "invoice \<Rightarrow> int InvoiceForm" where
  "invoice_form_row i =
     \<lparr>if_id = inv_id i, if_customer_id = inv_customer_id i, if_amount = inv_amount i,
      if_status = inv_status i\<rparr>"

definition select_invoice_by_id :: "string \<Rightarrow> database \<Rightarrow> thrown + int InvoiceForm list" where
  "select_invoice_by_id ident db =
     Inr (map invoice_form_row (filter (\<lambda>i. inv_id i = ident) (invoices db)))"

text \<open>
  \<open>SELECT id, name FROM customers ORDER BY name ASC\<close>. Names are compared as byte
  strings; a collation of the engine may order them otherwise.
\<close>

record CustomerField =
  cf_id :: string
  cf_name :: string

definition select_customers :: "database \<Rightarrow> thrown + CustomerField list" where
  "select_customers db =
     Inr (map (\<lambda>c. \<lparr>cf_id = cust_id c, cf_name = cust_name c\<rparr>)
            (sort_key cust_name (customers db)))"

text \<open>
  The customer table: \<open>customers LEFT JOIN invoices\<close>, filtered on name and email,
  grouped by the four customer columns, with \<open>COUNT(invoices.id)\<close> and the two sums,
  \<open>ORDER BY customers.name ASC\<close>.
\<close>

record 'a CustomersTableType =
  ct_id :: string
  ct_name :: string
  ct_email :: string
  ct_image_url :: string
  ct_total_invoices :: nat
  ct_total_pending :: 'a
  ct_total_paid :: 'a

definition customers_LEFT_JOIN_invoices :: "database \<Rightarrow> (customer \<times> invoice option) list" where
  "customers_LEFT_JOIN_invoices db =
     concat (map (\<lambda>c.
        case filter (\<lambda>i. cust_id c = inv_customer_id i) (invoices db) of
          [] \<Rightarrow> [(c, None)]
        | matched \<Rightarrow> map (\<lambda>i. (c, Some i)) matched) (customers db))"

definition SUM_CASE_joined :: "string \<Rightarrow> (customer \<times> invoice option) list \<Rightarrow> int" where
  "SUM_CASE_joined s rows =
     sum_list (map (\<lambda>r. case snd r of
                          None \<Rightarrow> 0
                        | Some i \<Rightarrow> if inv_status i = s then inv_amount i else 0) rows)"

definition customer_group ::
  "(customer \<times> invoice option) list \<Rightarrow> customer \<Rightarrow> int CustomersTableType" where
  "customer_group rows c =
     (let g = filter (\<lambda>r. fst r = c) rows
      in \<lparr>ct_id = cust_id c, ct_name = cust_name c, ct_email = cust_email c,
          ct_image_url = cust_image_url c,
          ct_total_invoices = length (filter (\<lambda>r. snd r \<noteq> None) g),
          ct_total_pending = SUM_CASE_joined ''pending'' g,
          ct_total_paid = SUM_CASE_joined ''paid'' g\<rparr>)"

definition select_filtered_customers ::
  "env \<Rightarrow> string \<Rightarrow> database \<Rightarrow> thrown + int CustomersTableType list" where
  "select_filtered_customers E pat db =
     (let rows = filter (\<lambda>r. ILIKE E (cust_name (fst r)) pat \<or> ILIKE E (cust_email (fst r)) pat)
                   (customers_LEFT_JOIN_invoices db)
      in Inr (sort_key ct_name (map (customer_group rows) (remdups (map fst rows)))))"

text \<open>\<open>SELECT * FROM users WHERE email = $1\<close>.\<close>

definition select_user_by_email :: "string \<Rightarrow> database \<Rightarrow> thrown + User list" where
  "select_user_by_email email db = Inr (filter (\<lambda>u. user_email u = email) (users db))"

section \<open>The data module\<close>

text \<open>
  Every operation of the module has the same shape: \<open>connectClient\<close> is awaited first,
  outside the \<open>try\<close> statement; the statement and the mapping of its rows are the
  \<open>try\<close> block; the \<open>catch\<close> block logs and throws a new \<open>Error\<close>; the \<open>finally\<close>
  block ends the client. The module declares \<open>connectClient\<close> without exporting it;
  its exports are the nine operations.

  The repository holds a second copy of the module that adds log lines to
  \<open>connectClient\<close> and a call of the framework's \<open>noStore()\<close> between the connect and
  the \<open>try\<close> statement; its statements and its \<open>try\<close> statements are the same. What
  is modelled is the first copy. In the second, a \<open>noStore()\<close> that threw would leave the
  operation with the connection open; whether it can throw is not in the repository.
\<close>

definition data_module_exports :: "string list" where
  "data_module_exports =
     [''fetchRevenue'', ''fetchLatestInvoices'', ''fetchCardData'', ''fetchFilteredInvoices'',
      ''fetchInvoicesPages'', ''fetchInvoiceById'', ''fetchCustomers'',
      ''fetchFilteredCustomers'', ''getUser'']"

definition fetchRevenue :: "env \<Rightarrow> Revenue list io" where
  "fetchRevenue E =
     io_bind (connectClient E) (\<lambda>client.
       try_catch_finally
         (io_bind (client_query E SELECT_revenue select_revenue)
            (\<lambda>p. io_bind (await p) (\<lambda>rows. io_return rows)))
         (\<lambda>error. io_bind (emit (ConsoleError ''Database Error:'' error))
            (\<lambda>u. io_throw (Error ''Failed to fetch revenue data.'')))
         client_end)"

definition fetchLatestInvoices :: "env \<Rightarrow> string LatestInvoice list io" where
  "fetchLatestInvoices E =
     io_bind (connectClient E) (\<lambda>client.
       try_catch_finally
         (io_bind (client_query E SELECT_latest_invoices select_latest_invoices)
            (\<lambda>p. io_bind (await p) (\<lambda>rows.
               let latestInvoices =
                     map (\<lambda>invoice.
                            \<lparr>li_amount = formatCurrency E (li_amount invoice),
                             li_name = li_name invoice, li_image_url = li_image_url invoice,
                             li_email = li_email invoice, li_id = li_id invoice\<rparr>)
                       rows
               in io_return latestInvoices)))
         (\<lambda>error. io_bind (emit (ConsoleError ''Database Error:'' error))
            (\<lambda>u. io_throw (Error ''Failed to fetch the latest invoices.'')))
         client_end)"

text \<open>
  \<open>Promise.all\<close> of three promises that were all started before: it rejects with the
  first rejection, taken in the order the statements were queued.
\<close>

definition Promise_all3 :: "thrown + 'a \<Rightarrow> thrown + 'b \<Rightarrow> thrown + 'c \<Rightarrow> ('a \<times> 'b \<times> 'c) io" where
  "Promise_all3 p1 p2 p3 =
     io_bind (await p1) (\<lambda>r1. io_bind (await p2) (\<lambda>r2. io_bind (await p3) (\<lambda>r3.
       io_return (r1, r2, r3))))"

record CardData =
  numberOfCustomers :: nat
  numberOfInvoices :: nat
  totalPaidInvoices :: string
  totalPendingInvoices :: string

definition fetchCardData :: "env \<Rightarrow> CardData io" where
  "fetchCardData E =
     io_bind (connectClient E) (\<lambda>client.
       try_catch_finally
         (io_bind (client_query E SELECT_COUNT_invoices select_count_invoices)
            (\<lambda>invoiceCountPromise.
          io_bind (client_query E SELECT_COUNT_customers select_count_customers)
            (\<lambda>customerCountPromise.
          io_bind (client_query E SELECT_SUM_by_status select_sum_by_status)
            (\<lambda>invoiceStatusPromise.
          io_bind (Promise_all3 invoiceCountPromise customerCountPromise invoiceStatusPromise)
            (\<lambda>res. case res of (invoiceCount, customerCount, paid, pending) \<Rightarrow>
               io_return
                 \<lparr>numberOfCustomers = customerCount,
                  numberOfInvoices = invoiceCount,
                  totalPaidInvoices =
                    formatCurrency E (case paid of None \<Rightarrow> 0 | Some v \<Rightarrow> v),
                  totalPendingInvoices =
                    formatCurrency E (case pending of None \<Rightarrow> 0 | Some v \<Rightarrow> v)\<rparr>)))))
         (\<lambda>error. io_bind (emit (ConsoleError ''Database Error:'' error))
            (\<lambda>u. io_throw (Error ''Failed to fetch card data.'')))
         client_end)"

definition ITEMS_PER_PAGE :: int where
  "ITEMS_PER_PAGE = 6"

definition fetchFilteredInvoices :: "env \<Rightarrow> string \<Rightarrow> int \<Rightarrow> InvoicesTable list io" where
  "fetchFilteredInvoices E query currentPage =
     io_bind (connectClient E) (\<lambda>client.
       let offset = (currentPage - 1) * ITEMS_PER_PAGE;
           pat = ''%'' @ query @ ''%''
       in try_catch_finally
            (io_bind (client_query E (SELECT_filtered_invoices pat ITEMS_PER_PAGE offset)
                        (select_filtered_invoices E pat ITEMS_PER_PAGE offset))
               (\<lambda>p. io_bind (await p) (\<lambda>rows. io_return rows)))
            (\<lambda>error. io_bind (emit (ConsoleError ''Database Error:'' error))
               (\<lambda>u. io_throw (Error ''Failed to fetch invoices.'')))
            client_end)"

text \<open>
  \<open>Math.ceil(Number(res.rows[0].count) / ITEMS_PER_PAGE)\<close>; the count is a natural
  number.
\<close>

definition fetchInvoicesPages :: "env \<Rightarrow> string \<Rightarrow> int io" where
  "fetchInvoicesPages E query =
     io_bind (connectClient E) (\<lambda>client.
       let pat = ''%'' @ query @ ''%''
       in try_catch_finally
            (io_bind (client_query E (SELECT_COUNT_filtered_invoices pat)
                        (select_count_filtered_invoices E pat))
               (\<lambda>p. io_bind (await p) (\<lambda>count.
                  let totalPages = \<lceil>real count / real_of_int ITEMS_PER_PAGE\<rceil>
                  in io_return totalPages)))
            (\<lambda>error. io_bind (emit (ConsoleError ''Database Error:'' error))
               (\<lambda>u. io_throw (Error ''Failed to fetch total number of invoices.'')))
            client_end)"

text \<open>
  \<open>fetchInvoiceById\<close> maps every row to dollars (\<open>invoice.amount / 100\<close>, a division
  of doubles) and returns element 0 of the mapped array, which is \<open>undefined\<close> (here
  \<open>None\<close>) when the array is empty.
\<close>

definition element0 :: "'a list \<Rightarrow> 'a option" where
  "element0 xs = (case xs of [] \<Rightarrow> None | x # rest \<Rightarrow> Some x)"

definition fetchInvoiceById :: "env \<Rightarrow> string \<Rightarrow> number InvoiceForm option io" where
  "fetchInvoiceById E ident =
     io_bind (connectClient E) (\<lambda>client.
       try_catch_finally
         (io_bind (client_query E (SELECT_invoice_by_id ident) (select_invoice_by_id ident))
            (\<lambda>p. io_bind (await p) (\<lambda>rows.
               let invoice =
                     map (\<lambda>invoice.
                            \<lparr>if_id = if_id invoice, if_customer_id = if_customer_id invoice,
                             if_amount = round_double (real_of_int (if_amount invoice) / 100),
                             if_status = if_status invoice\<rparr>)
                       rows
               in io_return (element0 invoice))))
         (\<lambda>error. io_bind (emit (ConsoleError ''Database Error:'' error))
            (\<lambda>u. io_throw (Error ''Failed to fetch invoice.'')))
         client_end)"

definition fetchCustomers :: "env \<Rightarrow> CustomerField list io" where
  "fetchCustomers E =
     io_bind (connectClient E) (\<lambda>client.
       try_catch_finally
         (io_bind (client_query E SELECT_customers select_customers)
            (\<lambda>p. io_bind (await p) (\<lambda>rows. io_return rows)))
         (\<lambda>error. io_bind (emit (ConsoleError ''Database Error:'' error))
            (\<lambda>u. io_throw (Error ''Failed to fetch all customers.'')))
         client_end)"

definition fetchFilteredCustomers :: "env \<Rightarrow> string \<Rightarrow> string CustomersTableType list io" where
  "fetchFilteredCustomers E query =
     io_bind (connectClient E) (\<lambda>client.
       let pat = ''%'' @ query @ ''%''
       in try_catch_finally
            (io_bind (client_query E (SELECT_filtered_customers pat)
                        (select_filtered_customers E pat))
               (\<lambda>p. io_bind (await p) (\<lambda>rows.
                  let customers =
                        map (\<lambda>customer.
                               \<lparr>ct_id = ct_id customer, ct_name = ct_name customer,
                                ct_email = ct_email customer,
                                ct_image_url = ct_image_url customer,
                                ct_total_invoices = ct_total_invoices customer,
                                ct_total_pending = formatCurrency E (ct_total_pending customer),
                                ct_total_paid = formatCurrency E (ct_total_paid customer)\<rparr>)
                          rows
                  in io_return customers)))
            (\<lambda>error. io_bind (emit (ConsoleError ''Database Error:'' error))
               (\<lambda>u. io_throw (Error ''Failed to fetch customer table.'')))
            client_end)"

definition getUser :: "env \<Rightarrow> string \<Rightarrow> User option io" where
  "getUser E email =
     io_bind (connectClient E) (\<lambda>client.
       try_catch_finally
         (io_bind (client_query E (SELECT_user_by_email email) (select_user_by_email email))
            (\<lambda>p. io_bind (await p) (\<lambda>rows. io_return (element0 rows))))
         (\<lambda>error. io_bind (emit (ConsoleError ''Failed to fetch user:'' error))
            (\<lambda>u. io_throw (Error ''Failed to fetch user.'')))
         client_end)"

section \<open>The actions module\<close>

subsection \<open>Form data and the schema\<close>

text \<open>
  \<open>formData.get(name)\<close> is the first entry of that name, a string or a file, or
  \<open>null\<close> (here \<open>None\<close>) when there is none.
\<close>

datatype FormDataEntryValue = Text string | FileEntry

type_synonym FormData = "(string \<times> FormDataEntryValue) list"

definition get :: "FormData \<Rightarrow> string \<Rightarrow> FormDataEntryValue option" where
  "get formData name = map_of formData name"

text \<open>
  \<open>customerId: z.string({invalid_type_error: ...})\<close>: any string passes, also the empty
  one.
\<close>

definition z_customerId :: "FormDataEntryValue option \<Rightarrow> issue list + string" where
  "z_customerId v =
     (case v of
        Some (Text s) \<Rightarrow> Inr s
      | _ \<Rightarrow> Inl [Issue ''customerId'' ''Please select a customer.''])"

text \<open>
  \<open>amount: z.coerce.number().gt(0, {message: ...})\<close>: the input goes through
  \<open>Number(...)\<close> first (\<open>Number(null)\<close> is 0, a file gives \<open>NaN\<close>), \<open>NaN\<close> is not a
  number for the schema, and the check rejects what is not greater than 0. The positive
  infinity passes, the negative one does not.
\<close>

definition coerce_number :: "env \<Rightarrow> FormDataEntryValue option \<Rightarrow> number" where
  "coerce_number E v =
     (case v of
        None \<Rightarrow> Finite 0
      | Some (Text s) \<Rightarrow> Number E s
      | Some FileEntry \<Rightarrow> NaN)"

definition z_amount :: "env \<Rightarrow> FormDataEntryValue option \<Rightarrow> issue list + number" where
  "z_amount E v =
     (case coerce_number E v of
        NaN \<Rightarrow> Inl [Issue ''amount'' ''Expected number, received nan'']
      | Finite r \<Rightarrow>
          if r \<le> 0 then Inl [Issue ''amount'' ''Please enter an amount greater than $0.'']
          else Inr (Finite r)
      | PosInfinity \<Rightarrow> Inr PosInfinity
      | NegInfinity \<Rightarrow> Inl [Issue ''amount'' ''Please enter an amount greater than $0.''])"

text \<open>A string between single quotes, as the library's messages print one.\<close>

definition quoted :: "string \<Rightarrow> string" where
  "quoted s = [CHR 0x27] @ s @ [CHR 0x27]"

text \<open>
  \<open>status: z.enum(['pending', 'paid'], {invalid_type_error: ...})\<close>: the custom message
  is for an input that is no string; a string outside the enumeration gets the library's
  message, which quotes the string.
\<close>

definition z_status :: "FormDataEntryValue option \<Rightarrow> issue list + string" where
  "z_status v =
     (case v of
        Some (Text s) \<Rightarrow>
          if s = ''pending'' \<or> s = ''paid'' then Inr s
          else Inl [Issue ''status''
                      (''Invalid enum value. Expected '' @ quoted ''pending'' @ '' | '' @
                       quoted ''paid'' @ '', received '' @ quoted s)]
      | _ \<Rightarrow> Inl [Issue ''status'' ''Please select an invoice status.''])"

record fields =
  customerId :: string
  amount :: number
  status :: string

definition issues_of :: "issue list + 'a \<Rightarrow> issue list" where
  "issues_of r = (case r of Inl issues \<Rightarrow> issues | Inr v \<Rightarrow> [])"

text \<open>
  \<open>FormSchema.omit({id: true, date: true})\<close> applied to the object of the three form
  entries: every field is parsed, and the issues of all of them are collected in the
  order of the schema.
\<close>

definition field_issues :: "env \<Rightarrow> FormData \<Rightarrow> issue list" where
  "field_issues E formData =
     issues_of (z_customerId (get formData ''customerId'')) @
     issues_of (z_amount E (get formData ''amount'')) @
     issues_of (z_status (get formData ''status''))"

definition safeParse :: "env \<Rightarrow> FormData \<Rightarrow> issue list + fields" where
  "safeParse E formData =
     (case (z_customerId (get formData ''customerId''),
            z_amount E (get formData ''amount''),
            z_status (get formData ''status'')) of
        (Inr c, Inr a, Inr s) \<Rightarrow> Inr \<lparr>customerId = c, amount = a, status = s\<rparr>
      | _ \<Rightarrow> Inl (field_issues E formData))"

text \<open>\<open>parse\<close> throws what \<open>safeParse\<close> reports.\<close>

definition parse :: "env \<Rightarrow> FormData \<Rightarrow> fields io" where
  "parse E formData =
     (case safeParse E formData of
        Inl issues \<Rightarrow> io_throw (ZodError issues)
      | Inr data \<Rightarrow> io_return data)"

text \<open>
  \<open>error.flatten().fieldErrors\<close>: the messages of the issues, grouped under the field
  they are about, fields in the order of their first issue.
\<close>

definition add_field_error :: "issue \<Rightarrow> (string \<times> string list) list \<Rightarrow> (string \<times> string list) list" where
  "add_field_error iss acc =
     (case map_of acc (issue_path iss) of
        None \<Rightarrow> acc @ [(issue_path iss, [issue_message iss])]
      | Some ms \<Rightarrow> map (\<lambda>kv. if fst kv = issue_path iss then (fst kv, snd kv @ [issue_message iss]) else kv) acc)"

definition fieldErrors :: "issue list \<Rightarrow> (string \<times> string list) list" where
  "fieldErrors issues = fold add_field_error issues []"

text \<open>The \<open>State\<close> type of the module: what an action returns when it returns an object.\<close>

record State =
  errors :: "(string \<times> string list) list option"
  message :: "string option"

subsection \<open>Names\<close>

text \<open>
  The names the module binds at its top level: its imports, its constants and its
  functions. \<open>connectClient\<close> is imported by name from the data module; a name that
  module does not export is bound to \<open>undefined\<close>. An identifier is read through the
  bindings in scope; one that nothing binds throws a \<open>ReferenceError\<close>.
\<close>

definition import_from_data :: "string \<Rightarrow> jsval" where
  "import_from_data name = (if name \<in> set data_module_exports then JObject else JUndefined)"

definition actions_module_scope :: "(string \<times> jsval) list" where
  "actions_module_scope =
     (''connectClient'', import_from_data ''connectClient'') #
     map (\<lambda>n. (n, JObject))
       [''z'', ''revalidatePath'', ''redirect'', ''error'',
        ''FormSchema'', ''CreateInvoice'', ''createInvoice'', ''UpdateInvoice'',
        ''updateInvoice'', ''deleteInvoice'']"

definition read_identifier :: "(string \<times> jsval) list \<Rightarrow> string \<Rightarrow> jsval io" where
  "read_identifier scope x =
     (case map_of scope x of
        None \<Rightarrow> io_throw (ReferenceError x)
      | Some v \<Rightarrow> io_return v)"

text \<open>
  \<open>await connectClient()\<close> as the actions module writes it: the call of what the name
  is bound to. A function bound to it is the data module's \<open>connectClient\<close>; the call
  of anything else throws a \<open>TypeError\<close>.
\<close>

definition call_connectClient :: "(string \<times> jsval) list \<Rightarrow> env \<Rightarrow> unit io" where
  "call_connectClient scope E =
     io_bind (read_identifier scope ''connectClient'') (\<lambda>f.
       case f of
         JObject \<Rightarrow> connectClient E
       | _ \<Rightarrow> io_throw (TypeError ''connectClient is not a function''))"

definition ToNumber :: "env \<Rightarrow> jsval \<Rightarrow> number" where
  "ToNumber E v =
     (case v of
        JString s \<Rightarrow> Number E s
      | JNumber n \<Rightarrow> n
      | JObject \<Rightarrow> NaN
      | JUndefined \<Rightarrow> NaN)"

text \<open>\<open>amount * 100\<close>: the product of two doubles, rounded to a double.\<close>

definition times100 :: "number \<Rightarrow> number" where
  "times100 n =
     (case n of
        NaN \<Rightarrow> NaN
      | Finite r \<Rightarrow> round_double (r * 100)
      | PosInfinity \<Rightarrow> PosInfinity
      | NegInfinity \<Rightarrow> NegInfinity)"

subsection \<open>The three statements of the actions\<close>

text \<open>
  The \<open>amount\<close> column is a 32-bit integer: the engine takes a number only when it is
  an integer in that range.
\<close>

definition int4_of :: "number \<Rightarrow> int option" where
  "int4_of n =
     (case n of
        NaN \<Rightarrow> None
      | Finite r \<Rightarrow>
          if real_of_int \<lfloor>r\<rfloor> = r \<and> - 2147483648 \<le> \<lfloor>r\<rfloor> \<and> \<lfloor>r\<rfloor> \<le> 2147483647
          then Some \<lfloor>r\<rfloor> else None
      | PosInfinity \<Rightarrow> None
      | NegInfinity \<Rightarrow> None)"

text \<open>
  \<open>INSERT INTO invoices (customer_id, amount, status, date) VALUES ($1, $2, $3, $4)\<close>;
  the id of the new row is the engine's default.
\<close>

definition insert_invoice ::
  "env \<Rightarrow> jsval \<Rightarrow> number \<Rightarrow> jsval \<Rightarrow> string \<Rightarrow> database \<Rightarrow> thrown + database" where
  "insert_invoice E c a s d db =
     (case (c, int4_of a, s, text_date E d) of
        (JString c', Some a', JString s', Some d') \<Rightarrow>
          Inr (db\<lparr>invoices := invoices db @
                 [\<lparr>inv_id = default_id E, inv_customer_id = c', inv_amount = a',
                   inv_status = s', inv_date = d'\<rparr>]\<rparr>)
      | _ \<Rightarrow> Inl (DriverError ''invalid input value''))"

text \<open>
  \<open>UPDATE invoices SET customer_id = $1, amount = $2, status = $3 WHERE id = $4\<close>.
\<close>

definition update_invoice ::
  "string \<Rightarrow> number \<Rightarrow> string \<Rightarrow> string \<Rightarrow> database \<Rightarrow> thrown + database" where
  "update_invoice c a s ident db =
     (case int4_of a of
        None \<Rightarrow> Inl (DriverError ''invalid input syntax for type integer'')
      | Some a' \<Rightarrow>
          Inr (db\<lparr>invoices :=
                 map (\<lambda>i. if inv_id i = ident
                          then i\<lparr>inv_customer_id := c, inv_amount := a', inv_status := s\<rparr>
                          else i) (invoices db)\<rparr>))"

text \<open>\<open>DELETE FROM invoices WHERE id = $1\<close>.\<close>

definition delete_invoice :: "string \<Rightarrow> database \<Rightarrow> thrown + database" where
  "delete_invoice ident db =
     Inr (db\<lparr>invoices := filter (\<lambda>i. inv_id i \<noteq> ident) (invoices db)\<rparr>)"

subsection \<open>The actions\<close>

definition revalidatePath :: "string \<Rightarrow> unit io" where
  "revalidatePath p = emit (RevalidatePath p)"

definition redirect :: "string \<Rightarrow> 'a io" where
  "redirect p = io_throw (NEXT_REDIRECT p)"

text \<open>
  An action returns a \<open>State\<close> object or nothing (\<open>None\<close>). Inside the action, a
  \<open>try\<close> statement either makes the function return (\<open>Some\<close> of what it returns) or
  falls through to the statements after it (\<open>None\<close>).

  \<open>createInvoice\<close> binds \<open>validatedFields\<close> and never takes \<open>customerId\<close>, \<open>amount\<close>
  and \<open>status\<close> out of it; it reads these three as identifiers. The bindings visible
  where it reads them are its parameter, \<open>validatedFields\<close> and the module's names;
  the global object of the server has none of the three.

  All three actions call \<open>connectClient\<close> through the module's import of that name.
  The parameters of \<open>updateInvoice\<close> and \<open>deleteInvoice\<close> do not hide it, so these
  two read it in the module's scope.
\<close>

definition createInvoice :: "env \<Rightarrow> FormData \<Rightarrow> State option io" where
  "createInvoice E formData =
     (let validatedFields = safeParse E formData;
          scope = [(''formData'', JObject), (''validatedFields'', JObject)] @ actions_module_scope
      in io_bind (emit (ConsoleLog ''validatedFields'')) (\<lambda>u.
         case validatedFields of
           Inl error \<Rightarrow>
             io_return (Some \<lparr>errors = Some (fieldErrors error),
                              message = Some ''Missing Fields. Failed to Create Invoice''\<rparr>)
         | Inr data \<Rightarrow>
             io_bind (read_identifier scope ''amount'') (\<lambda>amount.
             let amountInCents = times100 (ToNumber E amount);
                 date = takeWhile (\<lambda>c. c \<noteq> CHR ''T'') (now_iso E)
             in io_bind (call_connectClient scope E) (\<lambda>client.
                io_bind
                  (try_catch_finally
                     (io_bind (read_identifier scope ''customerId'') (\<lambda>customerId.
                      io_bind (read_identifier scope ''status'') (\<lambda>status.
                      io_bind (client_update E
                                 (INSERT_invoice customerId amountInCents status date)
                                 (insert_invoice E customerId amountInCents status date))
                        (\<lambda>p. io_bind (await p) (\<lambda>u. io_return None)))))
                     (\<lambda>error.
                        io_return (Some \<lparr>errors = None,
                                         message = Some ''Database Error: Failed to Create Invoice''\<rparr>))
                     client_end)
                  (\<lambda>returned.
                     case returned of
                       Some payload \<Rightarrow> io_return (Some payload)
                     | None \<Rightarrow>
                         io_bind (revalidatePath ''/dashboard/invoices'')
                           (\<lambda>u. redirect ''/dashboard/invoices''))))))"

definition updateInvoice :: "env \<Rightarrow> string \<Rightarrow> FormData \<Rightarrow> State option io" where
  "updateInvoice E ident formData =
     io_bind (parse E formData) (\<lambda>data.
       let amountInCents = times100 (amount data)
       in io_bind (call_connectClient actions_module_scope E) (\<lambda>client.
          io_bind
            (try_catch_finally
               (io_bind (client_update E
                           (UPDATE_invoice (customerId data) amountInCents (status data) ident)
                           (update_invoice (customerId data) amountInCents (status data) ident))
                  (\<lambda>p. io_bind (await p) (\<lambda>u. io_return None)))
               (\<lambda>error.
                  io_return (Some \<lparr>errors = None,
                                   message = Some ''Database Error: Failed to Update Invoice''\<rparr>))
               client_end)
            (\<lambda>returned.
               case returned of
                 Some payload \<Rightarrow> io_return (Some payload)
               | None \<Rightarrow>
                   io_bind (revalidatePath ''/dashboard/invoices'')
                     (\<lambda>u. redirect ''/dashboard/invoices''))))"

definition deleteInvoice :: "env \<Rightarrow> string \<Rightarrow> State option io" where
  "deleteInvoice E ident =
     io_bind (call_connectClient actions_module_scope E) (\<lambda>client.
       io_bind
         (try_catch_finally
            (io_bind (client_update E (DELETE_invoice ident) (delete_invoice ident))
               (\<lambda>p. io_bind (await p) (\<lambda>u. io_return None)))
            (\<lambda>error.
               io_return (Some \<lparr>errors = None,
                                message = Some ''Database Error: Failed to Delete Invoice''\<rparr>))
            client_end)
         (\<lambda>returned.
            case returned of
              Some payload \<Rightarrow> io_return (Some payload)
            | None \<Rightarrow> io_bind (revalidatePath ''/dashboard/invoices'') (\<lambda>u. io_return None)))"

section \<open>The shared client of the connection module\<close>

text \<open>
  The connection module keeps one client and a flag \<open>isConnected\<close>, initially false.
  Its \<open>connectClient\<close> calls \<open>client.connect()\<close> only while the flag is false, sets the
  flag when that call succeeds, and logs and rethrows when it fails. Whether the call
  succeeds is the server's answer, given with the call. The module exports the client,
  so any caller may end it; nothing in the module writes the flag then.
\<close>

record connection_module =
  isConnected :: bool
  client_ended :: bool

definition initial_module :: connection_module where
  "initial_module = \<lparr>isConnected = False, client_ended = False\<rparr>"

datatype attempt_event = ClientConnect | LoggedFailure thrown | ClientEnd

definition shared_connectClient ::
  "thrown option \<Rightarrow> connection_module \<Rightarrow> unit completion \<times> attempt_event list \<times> connection_module" where
  "shared_connectClient answer m =
     (if \<not> isConnected m then
        (case answer of
           None \<Rightarrow> (Return (), [ClientConnect], m\<lparr>isConnected := True\<rparr>)
         | Some err \<Rightarrow> (Throw err, [ClientConnect, LoggedFailure err], m))
      else (Return (), [], m))"

definition shared_client_end ::
  "connection_module \<Rightarrow> unit completion \<times> attempt_event list \<times> connection_module" where
  "shared_client_end m = (Return (), [ClientEnd], m\<lparr>client_ended := True\<rparr>)"

text \<open>What callers do with the module, one after the other.\<close>

datatype module_call = CallConnect "thrown option" | CallEnd

fun module_step ::
  "module_call \<Rightarrow> connection_module \<Rightarrow> unit completion \<times> attempt_event list \<times> connection_module" where
  "module_step (CallConnect answer) m = shared_connectClient answer m"
| "module_step CallEnd m = shared_client_end m"

fun module_run :: "module_call list \<Rightarrow> connection_module \<Rightarrow> attempt_event list \<times> connection_module" where
  "module_run [] m = ([], m)"
| "module_run (c # cs) m =
     (case module_step c m of (r, t, m') \<Rightarrow>
        (case module_run cs m' of (t', m'') \<Rightarrow> (t @ t', m'')))"

section \<open>The life of a connection in a run\<close>

text \<open>
  Read off the events of one run: a connection is unopened, then open from the
  successful connect to the end, then closed. A second connect, a statement or an end
  outside the open phase, or a second end, are refused (\<open>None\<close>).
\<close>

datatype connection = Unopened | Open | Closed

fun connection_after :: "connection \<Rightarrow> event list \<Rightarrow> connection option" where
  "connection_after s [] = Some s"
| "connection_after s (Connected # evs) =
     (if s = Unopened then connection_after Open evs else None)"
| "connection_after s (Query q # evs) =
     (if s = Open then connection_after Open evs else None)"
| "connection_after s (End # evs) =
     (if s = Open then connection_after Closed evs else None)"
| "connection_after s (ev # evs) = connection_after s evs"

text \<open>A run is clean when it opened nothing, or opened one connection and closed it.\<close>

definition closes_what_it_opened :: "event list \<Rightarrow> bool" where
  "closes_what_it_opened evs =
     (connection_after Unopened evs = Some Unopened \<or>
      connection_after Unopened evs = Some Closed)"

section \<open>A sample environment and store\<close>

text \<open>
  A server that accepts everything, with an engine that knows one pattern only, \<open>%%\<close>
  (the pattern of the empty search, which every text matches), and a \<open>Number\<close> that
  knows three strings. The store has two customers and the first \<open>n\<close> of seven
  invoices.
\<close>

definition sample_env :: env where
  "sample_env =
     \<lparr>connect_fault = None, query_fault = (\<lambda>s. None),
      ILIKE = (\<lambda>text pat. pat = ''%%''),
      int_text = (\<lambda>n. ''''), date_text = (\<lambda>d. ''''), text_date = (\<lambda>s. None),
      default_id = ''new'', formatCurrency = (\<lambda>n. ''''),
      Number = (\<lambda>s. if s = ''50.00'' then Finite 50 else if s = ''0'' then Finite 0
                     else if s = ''-5'' then Finite (- 5) else NaN),
      now_iso = ''2024-05-17T10:00:00.000Z''\<rparr>"

definition sample_invoices :: "invoice list" where
  "sample_invoices =
     [\<lparr>inv_id = ''i1'', inv_customer_id = ''c1'', inv_amount = 5000, inv_status = ''paid'', inv_date = 3\<rparr>,
      \<lparr>inv_id = ''i2'', inv_customer_id = ''c2'', inv_amount = 1250, inv_status = ''pending'', inv_date = 9\<rparr>,
      \<lparr>inv_id = ''i3'', inv_customer_id = ''c1'', inv_amount = 700, inv_status = ''paid'', inv_date = 1\<rparr>,
      \<lparr>inv_id = ''i4'', inv_customer_id = ''c2'', inv_amount = 99, inv_status = ''paid'', inv_date = 7\<rparr>,
      \<lparr>inv_id = ''i5'', inv_customer_id = ''c1'', inv_amount = 310, inv_status = ''pending'', inv_date = 5\<rparr>,
      \<lparr>inv_id = ''i6'', inv_customer_id = ''c1'', inv_amount = 42, inv_status = ''paid'', inv_date = 8\<rparr>,
      \<lparr>inv_id = ''i7'', inv_customer_id = ''c2'', inv_amount = 8, inv_status = ''pending'', inv_date = 2\<rparr>]"

definition sample_database :: "nat \<Rightarrow> database" where
  "sample_database n =
     \<lparr>invoices = take n sample_invoices,
      customers =
        [\<lparr>cust_id = ''c1'', cust_name = ''Ada'', cust_email = ''ada@example.com'', cust_image_url = ''/a.png''\<rparr>,
         \<lparr>cust_id = ''c2'', cust_name = ''Bob'', cust_email = ''bob@example.com'', cust_image_url = ''/b.png''\<rparr>],
      revenue = [], users = []\<rparr>"

text \<open>The same server refusing the connection, and refusing every statement.\<close>

definition refusing_env :: env where
  "refusing_env = sample_env\<lparr>connect_fault := Some (DriverError ''ECONNREFUSED'')\<rparr>"

definition failing_env :: env where
  "failing_env = sample_env\<lparr>query_fault := (\<lambda>s. Some (DriverError ''syntax error''))\<rparr>"

section \<open>Properties\<close>

text \<open>The definitions that running an operation unfolds.\<close>

lemmas io_defs =
  completion_def events_def store_def io_return_def io_throw_def io_bind_def emit_def
  try_catch_finally_def client_connect_def client_query_def client_update_def await_def
  client_end_def connectClient_def

subsection \<open>Rounding, on the values used below\<close>

lemmas round_double_defs =
  round_double_def round_magnitude_def scaled_def negate_def binade_def pow2_def
  round_half_even_def bit_length.simps

text \<open>
  \<open>50 * 100\<close> is 5000 and \<open>5000 / 100\<close> is 50, \<open>1250 / 100\<close> is 12.5, all exact. The
  double nearest to 19.99 times 100 is not 1999 but the double just below it,
  1998.9999999999998.
\<close>

lemma times100_50: "times100 (Finite 50) = Finite 5000"
  by (simp add: times100_def round_double_defs)

lemma round_double_5000_cents: "round_double (real_of_int 5000 / 100) = Finite 50"
  by (simp add: round_double_defs)

lemma round_double_25_halves: "round_double (25 / 2) = Finite (25 / 2)"
  by (simp add: round_double_defs)

lemma round_double_1250_cents: "round_double (real_of_int 1250 / 100) = Finite (25 / 2)"
  by (simp add: round_double_25_halves)

lemma times100_rounds:
  "times100 (Finite (5626684784446013 / 281474976710656)) =
     Finite (8791694975696895 / 4398046511104)
   \<and> (8791694975696895 / 4398046511104 :: real) < 1999
   \<and> int4_of (times100 (Finite (5626684784446013 / 281474976710656))) = None"
proof -
  have t: "times100 (Finite (5626684784446013 / 281474976710656)) =
             Finite (8791694975696895 / 4398046511104)"
    by (simp add: times100_def round_double_defs)
  have f: "\<lfloor>8791694975696895 / 4398046511104 :: real\<rfloor> = 1998"
    by (simp add: floor_eq_iff)
  show ?thesis
    by (simp only: t) (simp add: int4_of_def f)
qed

subsection \<open>Page count\<close>

lemma fetchInvoicesPages_run:
  assumes "connect_fault E = None"
    and "query_fault E (SELECT_COUNT_filtered_invoices (''%'' @ query @ ''%'')) = None"
  shows "fetchInvoicesPages E query db =
           (Return \<lceil>real (length (matching_invoices E db (''%'' @ query @ ''%''))) / 6\<rceil>,
            [Connected, Query (SELECT_COUNT_filtered_invoices (''%'' @ query @ ''%'')), End],
            db)"
  using assms
  by (simp add: fetchInvoicesPages_def io_defs statement_result_def select_count_filtered_invoices_def
      ITEMS_PER_PAGE_def Let_def)

lemma ceiling_pages_bound: "int n \<le> \<lceil>real n / 6\<rceil> * 6"
proof -
  have "real n / 6 \<le> real_of_int \<lceil>real n / 6\<rceil>" by (rule le_of_int_ceiling)
  then have "real n \<le> real_of_int \<lceil>real n / 6\<rceil> * 6" by linarith
  then have "real_of_int (int n) \<le> real_of_int (\<lceil>real n / 6\<rceil> * 6)" by simp
  then show ?thesis by (simp only: of_int_le_iff)
qed

text \<open>
  C3: when the connection and the count statement succeed, \<open>fetchInvoicesPages(query)\<close>
  returns exactly the ceiling of n / 6, where n is the number of rows of the join that
  match the search pattern, and the returned value times the page size is at least n.
  With 0, 6 and 7 matching rows it returns 0, 1 and 2.
\<close>

theorem fetchInvoicesPages_total_pages:
  assumes "connect_fault E = None"
    and "query_fault E (SELECT_COUNT_filtered_invoices (''%'' @ query @ ''%'')) = None"
  shows "completion (fetchInvoicesPages E query db) =
           Return \<lceil>real (length (matching_invoices E db (''%'' @ query @ ''%''))) / 6\<rceil>
         \<and> int (length (matching_invoices E db (''%'' @ query @ ''%'')))
             \<le> \<lceil>real (length (matching_invoices E db (''%'' @ query @ ''%''))) / 6\<rceil> * ITEMS_PER_PAGE"
  using fetchInvoicesPages_run [OF assms, of db] ceiling_pages_bound
  by (simp add: completion_def ITEMS_PER_PAGE_def)

lemma sample_matching:
  "length (matching_invoices sample_env (sample_database 0) ''%%'') = 0"
  "length (matching_invoices sample_env (sample_database 6) ''%%'') = 6"
  "length (matching_invoices sample_env (sample_database 7) ''%%'') = 7"
  by (simp_all add: matching_invoices_def invoice_search_def invoices_JOIN_customers_def
      sample_env_def sample_database_def sample_invoices_def)

theorem fetchInvoicesPages_total_pages_witness:
  "connect_fault sample_env = None \<and>
   query_fault sample_env (SELECT_COUNT_filtered_invoices (''%'' @ [] @ ''%'')) = None \<and>
   completion (fetchInvoicesPages sample_env [] (sample_database 0)) = Return 0 \<and>
   completion (fetchInvoicesPages sample_env [] (sample_database 6)) = Return 1 \<and>
   completion (fetchInvoicesPages sample_env [] (sample_database 7)) = Return 2"
proof -
  have c: "connect_fault sample_env = None" by (simp add: sample_env_def)
  have q: "query_fault sample_env (SELECT_COUNT_filtered_invoices (''%'' @ [] @ ''%'')) = None"
    by (simp add: sample_env_def)
  show ?thesis
    using fetchInvoicesPages_total_pages [OF c q, of "sample_database 0"]
      fetchInvoicesPages_total_pages [OF c q, of "sample_database 6"]
      fetchInvoicesPages_total_pages [OF c q, of "sample_database 7"] c q
    by (simp add: sample_matching)
qed

subsection \<open>One page of the invoice search\<close>

lemma ORDER_BY_date_DESC_sorted:
  "sorted_wrt (\<lambda>a b. inv_date (fst b) \<le> inv_date (fst a)) (ORDER_BY_date_DESC rows)"
proof -
  have "sorted (map (\<lambda>r. - inv_date (fst r)) (sort_key (\<lambda>r. - inv_date (fst r)) rows))"
    by (rule sorted_sort_key)
  then show ?thesis
    by (simp add: ORDER_BY_date_DESC_def sorted_wrt_map)
qed

lemma ORDER_BY_date_DESC_mset: "mset (ORDER_BY_date_DESC rows) = mset rows"
  by (simp add: ORDER_BY_date_DESC_def)

lemma it_date_row: "it_date (invoices_table_row r) = inv_date (fst r)"
  by (cases r) (simp add: invoices_table_row_def)

lemma fetchFilteredInvoices_run:
  assumes "1 \<le> page" and "connect_fault E = None"
    and "query_fault E (SELECT_filtered_invoices (''%'' @ query @ ''%'') 6 ((page - 1) * 6)) = None"
  shows "fetchFilteredInvoices E query page db =
           (Return (map invoices_table_row
                      (take 6 (drop (nat ((page - 1) * 6))
                         (ORDER_BY_date_DESC (matching_invoices E db (''%'' @ query @ ''%'')))))),
            [Connected, Query (SELECT_filtered_invoices (''%'' @ query @ ''%'') 6 ((page - 1) * 6)), End],
            db)"
  using assms
  by (simp add: fetchFilteredInvoices_def io_defs statement_result_def
      select_filtered_invoices_def ITEMS_PER_PAGE_def Let_def)

text \<open>
  C7: for a page number of at least 1, when the connection and the statement succeed,
  \<open>fetchFilteredInvoices(query, page)\<close> returns the rows that follow the first
  (page - 1) * 6 of the matching rows in the order of descending invoice date, at most 6
  of them, themselves in descending date order. The ordered list is a rearrangement of
  exactly the matching rows.
\<close>

theorem fetchFilteredInvoices_page:
  assumes "1 \<le> page" and "connect_fault E = None"
    and "query_fault E (SELECT_filtered_invoices (''%'' @ query @ ''%'') 6 ((page - 1) * 6)) = None"
  shows "let matching = ORDER_BY_date_DESC (matching_invoices E db (''%'' @ query @ ''%''));
             rows = map invoices_table_row (take 6 (drop (nat ((page - 1) * 6)) matching))
         in completion (fetchFilteredInvoices E query page db) = Return rows
            \<and> length rows \<le> 6
            \<and> sorted_wrt (\<lambda>a b. it_date b \<le> it_date a) rows
            \<and> mset matching = mset (matching_invoices E db (''%'' @ query @ ''%''))
            \<and> sorted_wrt (\<lambda>a b. inv_date (fst b) \<le> inv_date (fst a)) matching"
proof -
  let ?m = "ORDER_BY_date_DESC (matching_invoices E db (''%'' @ query @ ''%''))"
  have s: "sorted_wrt (\<lambda>a b. inv_date (fst b) \<le> inv_date (fst a)) ?m"
    by (rule ORDER_BY_date_DESC_sorted)
  then have "sorted_wrt (\<lambda>a b. inv_date (fst b) \<le> inv_date (fst a))
               (take 6 (drop (nat ((page - 1) * 6)) ?m))"
    by (intro sorted_wrt_take sorted_wrt_drop)
  then have "sorted_wrt (\<lambda>a b. it_date b \<le> it_date a)
               (map invoices_table_row (take 6 (drop (nat ((page - 1) * 6)) ?m)))"
    by (simp add: sorted_wrt_map it_date_row)
  then show ?thesis
    using fetchFilteredInvoices_run [OF assms, of db] s
    by (simp add: Let_def completion_def ORDER_BY_date_DESC_mset)
qed

theorem fetchFilteredInvoices_page_witness:
  "(1::int) \<le> 2 \<and> connect_fault sample_env = None \<and>
   query_fault sample_env (SELECT_filtered_invoices (''%'' @ [] @ ''%'') 6 ((2 - 1) * 6)) = None \<and>
   completion (fetchFilteredInvoices sample_env [] 2 (sample_database 7)) =
     Return [\<lparr>it_id = ''i3'', it_amount = 700, it_date = 1, it_status = ''paid'',
              it_name = ''Ada'', it_email = ''ada@example.com'', it_image_url = ''/a.png''\<rparr>]"
proof -
  have p: "(1::int) \<le> 2" by simp
  have c: "connect_fault sample_env = None" by (simp add: sample_env_def)
  have q: "query_fault sample_env (SELECT_filtered_invoices (''%'' @ [] @ ''%'') 6 ((2 - 1) * 6)) = None"
    by (simp add: sample_env_def)
  have m: "ORDER_BY_date_DESC (matching_invoices sample_env (sample_database 7) ''%%'') =
             map (\<lambda>i. (sample_invoices ! i, customers (sample_database 7) ! (if i \<in> {0,2,4,5} then 0 else 1)))
               [1, 5, 3, 4, 0, 6, 2]"
    by (simp add: ORDER_BY_date_DESC_def matching_invoices_def invoice_search_def
        invoices_JOIN_customers_def sample_env_def sample_database_def sample_invoices_def)
  have r: "map invoices_table_row (take 6 (drop (nat ((2 - 1) * 6))
             (ORDER_BY_date_DESC (matching_invoices sample_env (sample_database 7) (''%'' @ [] @ ''%''))))) =
           [\<lparr>it_id = ''i3'', it_amount = 700, it_date = 1, it_status = ''paid'',
              it_name = ''Ada'', it_email = ''ada@example.com'', it_image_url = ''/a.png''\<rparr>]"
    by (simp only: append.simps m)
       (simp add: invoices_table_row_def sample_invoices_def sample_database_def)
  have "completion (fetchFilteredInvoices sample_env [] 2 (sample_database 7)) =
     Return [\<lparr>it_id = ''i3'', it_amount = 700, it_date = 1, it_status = ''paid'',
              it_name = ''Ada'', it_email = ''ada@example.com'', it_image_url = ''/a.png''\<rparr>]"
    using fetchFilteredInvoices_page [OF p c q, of "sample_database 7"]
    by (simp only: Let_def r)
  then show ?thesis using p c q by simp
qed

subsection \<open>An invoice by its id\<close>

lemma fetchInvoiceById_run:
  assumes "connect_fault E = None" and "query_fault E (SELECT_invoice_by_id ident) = None"
  shows "fetchInvoiceById E ident db =
           (Return (element0 (map (\<lambda>i. \<lparr>if_id = inv_id i, if_customer_id = inv_customer_id i,
                                          if_amount = round_double (real_of_int (inv_amount i) / 100),
                                          if_status = inv_status i\<rparr>)
                                (filter (\<lambda>i. inv_id i = ident) (invoices db)))),
            [Connected, Query (SELECT_invoice_by_id ident), End], db)"
  using assms
  by (simp add: fetchInvoiceById_def io_defs statement_result_def select_invoice_by_id_def
      invoice_form_row_def Let_def comp_def)

text \<open>
  C9: when no invoice row has the id, and the connection and the statement succeed,
  \<open>fetchInvoiceById(id)\<close> returns normally, and what it returns is \<open>undefined\<close>,
  element 0 of the empty mapped array: no error and no record.
\<close>

theorem fetchInvoiceById_no_row:
  assumes "connect_fault E = None" and "query_fault E (SELECT_invoice_by_id ident) = None"
    and "\<forall>i \<in> set (invoices db). inv_id i \<noteq> ident"
  shows "fetchInvoiceById E ident db =
           (Return None, [Connected, Query (SELECT_invoice_by_id ident), End], db)"
proof -
  have "filter (\<lambda>i. inv_id i = ident) (invoices db) = []"
    using assms(3) by (simp add: filter_empty_conv)
  then show ?thesis
    using fetchInvoiceById_run [OF assms(1,2), of db] by (simp add: element0_def)
qed

theorem fetchInvoiceById_no_row_witness:
  "connect_fault sample_env = None \<and> query_fault sample_env (SELECT_invoice_by_id ''i9'') = None \<and>
   ''i9'' \<notin> set (map inv_id (invoices (sample_database 7))) \<and>
   fetchInvoiceById sample_env ''i9'' (sample_database 7) =
     (Return None, [Connected, Query (SELECT_invoice_by_id ''i9''), End], sample_database 7)"
proof -
  have c: "connect_fault sample_env = None" by (simp add: sample_env_def)
  have q: "query_fault sample_env (SELECT_invoice_by_id ''i9'') = None" by (simp add: sample_env_def)
  have n: "\<forall>i \<in> set (invoices (sample_database 7)). inv_id i \<noteq> ''i9''"
    by (simp add: sample_database_def sample_invoices_def)
  have m: "''i9'' \<notin> set (map inv_id (invoices (sample_database 7)))"
    by (simp add: sample_database_def sample_invoices_def)
  show ?thesis
    using fetchInvoiceById_no_row [OF c q n] c q m by simp
qed

subsection \<open>Validation in \<open>createInvoice\<close>\<close>

lemma z_amount_nonpositive:
  "coerce_number E v = Finite r \<and> r \<le> 0 \<or> coerce_number E v = NegInfinity \<Longrightarrow>
   z_amount E v = Inl [Issue ''amount'' ''Please enter an amount greater than $0.'']"
  by (auto simp add: z_amount_def)

lemma z_customerId_issues:
  "issues_of (z_customerId v) = [] \<or>
   issues_of (z_customerId v) = [Issue ''customerId'' ''Please select a customer.'']"
  by (simp add: z_customerId_def issues_of_def split: option.splits FormDataEntryValue.splits)

lemma z_status_issues:
  "issues_of (z_status v) = [] \<or> (\<exists>m. issues_of (z_status v) = [Issue ''status'' m])"
  by (simp add: z_status_def issues_of_def split: option.splits FormDataEntryValue.splits)

lemma safeParse_Inl:
  "z_amount E (get formData ''amount'') = Inl issues \<Longrightarrow>
   safeParse E formData = Inl (field_issues E formData)"
  by (simp add: safeParse_def split: sum.splits)

lemma fieldErrors_amount:
  assumes "z_amount E (get formData ''amount'') = Inl [Issue ''amount'' m]"
  shows "map_of (fieldErrors (field_issues E formData)) ''amount'' = Some [m]"
  using z_customerId_issues [of "get formData ''customerId''"]
    z_status_issues [of "get formData ''status''"] assms
  by (auto simp add: field_issues_def fieldErrors_def add_field_error_def issues_of_def)

text \<open>
  C5: when the amount entry coerces to a number that is 0 or less (a finite one, or the
  negative infinity), \<open>createInvoice\<close> returns the payload with the field errors, among
  them the one keyed \<open>amount\<close>; the only event is the log line, so no connection is
  opened and no statement is sent, and the store is unchanged.
\<close>

theorem createInvoice_rejects_nonpositive_amount:
  assumes "coerce_number E (get formData ''amount'') = Finite r \<and> r \<le> 0
           \<or> coerce_number E (get formData ''amount'') = NegInfinity"
  shows "createInvoice E formData db =
           (Return (Some \<lparr>errors = Some (fieldErrors (field_issues E formData)),
                           message = Some ''Missing Fields. Failed to Create Invoice''\<rparr>),
            [ConsoleLog ''validatedFields''], db)
         \<and> map_of (fieldErrors (field_issues E formData)) ''amount''
             = Some [''Please enter an amount greater than $0.'']"
proof -
  note a = z_amount_nonpositive [OF assms]
  have "safeParse E formData = Inl (field_issues E formData)"
    by (rule safeParse_Inl [OF a])
  then show ?thesis
    using fieldErrors_amount [OF a] by (simp add: createInvoice_def io_defs Let_def)
qed

theorem createInvoice_rejects_nonpositive_amount_witness:
  "coerce_number sample_env (get [(''customerId'', Text ''c1''), (''amount'', Text ''-5''),
        (''status'', Text ''paid'')] ''amount'') = Finite (- 5) \<and> (- 5 :: real) \<le> 0 \<and>
   createInvoice sample_env
     [(''customerId'', Text ''c1''), (''amount'', Text ''-5''), (''status'', Text ''paid'')]
     (sample_database 7) =
     (Return (Some \<lparr>errors = Some [(''amount'', [''Please enter an amount greater than $0.''])],
                     message = Some ''Missing Fields. Failed to Create Invoice''\<rparr>),
      [ConsoleLog ''validatedFields''], sample_database 7)"
proof -
  let ?f = "[(''customerId'', Text ''c1''), (''amount'', Text ''-5''), (''status'', Text ''paid'')]"
  have h: "coerce_number sample_env (get ?f ''amount'') = Finite (- 5)"
    by (simp add: coerce_number_def get_def sample_env_def)
  have n: "coerce_number sample_env (get ?f ''amount'') = Finite (- 5) \<and> (- 5 :: real) \<le> 0
           \<or> coerce_number sample_env (get ?f ''amount'') = NegInfinity"
    using h by simp
  have fe: "fieldErrors (field_issues sample_env ?f) =
              [(''amount'', [''Please enter an amount greater than $0.''])]"
    by (simp add: fieldErrors_def field_issues_def add_field_error_def issues_of_def
        z_customerId_def z_amount_def z_status_def coerce_number_def get_def sample_env_def)
  show ?thesis
    using createInvoice_rejects_nonpositive_amount [OF n, of "sample_database 7"] h
    by (simp only: fe) simp
qed

subsection \<open>A valid form in \<open>createInvoice\<close>\<close>

lemma createInvoice_valid:
  "safeParse E formData = Inr data \<Longrightarrow>
   createInvoice E formData db =
     (Throw (ReferenceError ''amount''), [ConsoleLog ''validatedFields''], db)"
  by (simp add: createInvoice_def io_defs Let_def read_identifier_def actions_module_scope_def
      import_from_data_def data_module_exports_def)

text \<open>
  C1, at the form of the specification (\<open>amount = "50.00"\<close>, \<open>status = "paid"\<close>): the
  form passes the schema with the amount 50, and the action then throws
  \<open>ReferenceError: amount is not defined\<close> where it computes the cents, before any
  connection: nothing is inserted, nothing is invalidated, and there is no redirect.
\<close>

theorem createInvoice_valid_payload_throws:
  "safeParse sample_env
     [(''customerId'', Text ''c1''), (''amount'', Text ''50.00''), (''status'', Text ''paid'')] =
     Inr \<lparr>customerId = ''c1'', amount = Finite 50, status = ''paid''\<rparr> \<and>
   createInvoice sample_env
     [(''customerId'', Text ''c1''), (''amount'', Text ''50.00''), (''status'', Text ''paid'')]
     (sample_database 7) =
     (Throw (ReferenceError ''amount''), [ConsoleLog ''validatedFields''], sample_database 7)"
proof -
  have v: "safeParse sample_env
     [(''customerId'', Text ''c1''), (''amount'', Text ''50.00''), (''status'', Text ''paid'')] =
     Inr \<lparr>customerId = ''c1'', amount = Finite 50, status = ''paid''\<rparr>"
    by (simp add: safeParse_def z_customerId_def z_amount_def z_status_def coerce_number_def
        get_def sample_env_def)
  show ?thesis
    using createInvoice_valid [OF v] v by simp
qed

subsection \<open>The import of \<open>connectClient\<close>\<close>

lemma call_connectClient_throws:
  "call_connectClient actions_module_scope E db =
     (Throw (TypeError ''connectClient is not a function''), [], db)"
  by (simp add: call_connectClient_def read_identifier_def actions_module_scope_def
      import_from_data_def data_module_exports_def io_defs)

subsection \<open>\<open>updateInvoice\<close>\<close>

lemma safeParse_invalid:
  assumes "\<not> ((\<exists>c. get formData ''customerId'' = Some (Text c)) \<and>
              ((\<exists>r. coerce_number E (get formData ''amount'') = Finite r \<and> 0 < r) \<or>
               coerce_number E (get formData ''amount'') = PosInfinity) \<and>
              (get formData ''status'' = Some (Text ''pending'') \<or>
               get formData ''status'' = Some (Text ''paid'')))"
  shows "safeParse E formData = Inl (field_issues E formData) \<and> field_issues E formData \<noteq> []"
  using assms
  by (auto simp add: safeParse_def field_issues_def issues_of_def z_customerId_def z_amount_def
      z_status_def split: option.splits FormDataEntryValue.splits number.splits sum.splits if_splits)

lemma updateInvoice_invalid:
  "safeParse E formData = Inl issues \<Longrightarrow>
   updateInvoice E ident formData db = (Throw (ZodError issues), [], db)"
  by (simp add: updateInvoice_def parse_def io_defs)

lemma updateInvoice_valid:
  "safeParse E formData = Inr data \<Longrightarrow>
   updateInvoice E ident formData db =
     (Throw (TypeError ''connectClient is not a function''), [], db)"
  using call_connectClient_throws [of E db]
  by (simp add: updateInvoice_def parse_def io_return_def io_bind_def Let_def)

lemma deleteInvoice_throws:
  "deleteInvoice E ident db = (Throw (TypeError ''connectClient is not a function''), [], db)"
  using call_connectClient_throws [of E db]
  by (simp add: deleteInvoice_def io_bind_def)

text \<open>
  C8, at a form that fails the schema and at one that passes it. The first half of the
  claim holds: the form with amount 0 makes \<open>updateInvoice\<close> throw the parse error, no
  payload is returned (\<open>updateInvoice_invalid\<close> and \<open>safeParse_invalid\<close> say so for
  every such form). The second half does not: the form with amount 50.00 passes the
  schema, the cents are computed, and the call of \<open>connectClient\<close> throws a
  \<open>TypeError\<close>, because the data module does not export that name. No connection is
  opened, no update is sent, nothing is invalidated and there is no redirect
  (\<open>updateInvoice_valid\<close> says so for every form that passes).
\<close>

theorem updateInvoice_valid_form_throws:
  "updateInvoice sample_env ''i1''
     [(''customerId'', Text ''c2''), (''amount'', Text ''0''), (''status'', Text ''paid'')]
     (sample_database 1) =
     (Throw (ZodError [Issue ''amount'' ''Please enter an amount greater than $0.'']), [],
      sample_database 1)
   \<and>
   safeParse sample_env
     [(''customerId'', Text ''c2''), (''amount'', Text ''50.00''), (''status'', Text ''pending'')] =
     Inr \<lparr>customerId = ''c2'', amount = Finite 50, status = ''pending''\<rparr>
   \<and>
   updateInvoice sample_env ''i1''
     [(''customerId'', Text ''c2''), (''amount'', Text ''50.00''), (''status'', Text ''pending'')]
     (sample_database 1) =
     (Throw (TypeError ''connectClient is not a function''), [], sample_database 1)"
proof -
  have b: "safeParse sample_env
     [(''customerId'', Text ''c2''), (''amount'', Text ''0''), (''status'', Text ''paid'')] =
     Inl [Issue ''amount'' ''Please enter an amount greater than $0.'']"
    by (simp add: safeParse_def field_issues_def issues_of_def z_customerId_def z_amount_def
        z_status_def get_def coerce_number_def sample_env_def)
  have g: "safeParse sample_env
     [(''customerId'', Text ''c2''), (''amount'', Text ''50.00''), (''status'', Text ''pending'')] =
     Inr \<lparr>customerId = ''c2'', amount = Finite 50, status = ''pending''\<rparr>"
    by (simp add: safeParse_def z_customerId_def z_amount_def z_status_def get_def
        coerce_number_def sample_env_def)
  show ?thesis
    using updateInvoice_invalid [OF b] updateInvoice_valid [OF g] g by simp
qed

subsection \<open>Reading back what was submitted\<close>

text \<open>
  The two statements fit each other: once the update statement has stored \<open>k\<close> cents
  in the rows of an id, the read of that id gives \<open>k / 100\<close>, as a double.
\<close>

lemma update_invoice_then_fetchInvoiceById:
  assumes "int4_of n = Some k" and "i \<in> set (invoices db)" and "inv_id i = ident"
    and "connect_fault E = None" and "query_fault E (SELECT_invoice_by_id ident) = None"
    and "update_invoice c n s ident db = Inr db'"
  shows "completion (fetchInvoiceById E ident db') =
           Return (Some \<lparr>if_id = ident, if_customer_id = c,
                           if_amount = round_double (real_of_int k / 100), if_status = s\<rparr>)"
proof -
  let ?u = "\<lambda>i. if inv_id i = ident
                 then i\<lparr>inv_customer_id := c, inv_amount := k, inv_status := s\<rparr> else i"
  have d: "invoices db' = map ?u (invoices db)"
    using assms(1,6) by (auto simp add: update_invoice_def)
  have f: "filter (\<lambda>i. inv_id i = ident) (map ?u xs) =
             map (\<lambda>i. i\<lparr>inv_customer_id := c, inv_amount := k, inv_status := s\<rparr>)
               (filter (\<lambda>i. inv_id i = ident) xs)" for xs
    by (induction xs) auto
  have "filter (\<lambda>i. inv_id i = ident) (invoices db) \<noteq> []"
    using assms(2,3) by (auto simp add: filter_empty_conv)
  then obtain x xs where x: "filter (\<lambda>i. inv_id i = ident) (invoices db) = x # xs"
    by (cases "filter (\<lambda>i. inv_id i = ident) (invoices db)") auto
  then have "x \<in> set (filter (\<lambda>i. inv_id i = ident) (invoices db))" by simp
  then have "inv_id x = ident" by simp
  then show ?thesis
    using fetchInvoiceById_run [OF assms(4,5), of db'] x
    by (simp add: d f element0_def completion_def)
qed


subsection \<open>The shared client\<close>

lemma module_run_connected:
  "isConnected m \<Longrightarrow>
   isConnected (snd (module_run calls m)) \<and> ClientConnect \<notin> set (fst (module_run calls m))"
proof (induction calls arbitrary: m)
  case Nil
  then show ?case by simp
next
  case (Cons c calls)
  show ?case
  proof (cases c)
    case (CallConnect answer)
    with Cons.prems have "module_step c m = (Return (), [], m)"
      by (simp add: shared_connectClient_def)
    with Cons.IH [OF Cons.prems] show ?thesis
      by (auto split: prod.splits)
  next
    case CallEnd
    then have s: "module_step c m = (Return (), [ClientEnd], m\<lparr>client_ended := True\<rparr>)"
      by (simp add: shared_client_end_def)
    from Cons.prems have "isConnected (m\<lparr>client_ended := True\<rparr>)" by simp
    from Cons.IH [OF this] s show ?thesis
      by (auto split: prod.splits)
  qed
qed

text \<open>
  C10: in the module with the shared client, a call of \<open>connectClient\<close> that finds the
  flag false and succeeds sets it; a call that finds it true makes no connection attempt
  and returns at once, whatever the server would answer; once true, the flag stays true
  through every later sequence of \<open>connectClient\<close> calls and ends of the client, none of
  which attempts a connection; a call that fails logs, rethrows and leaves the module as
  it was, flag false, so that the call after it attempts the connection again.
\<close>

theorem shared_connectClient_idempotent:
  "(\<not> isConnected m \<longrightarrow>
      shared_connectClient None m = (Return (), [ClientConnect], m\<lparr>isConnected := True\<rparr>))
   \<and> (isConnected m \<longrightarrow> shared_connectClient answer m = (Return (), [], m))
   \<and> (isConnected m \<longrightarrow>
        isConnected (snd (module_run calls m)) \<and> ClientConnect \<notin> set (fst (module_run calls m)))
   \<and> (isConnected m \<longrightarrow> isConnected (snd (snd (shared_client_end m))))
   \<and> (\<not> isConnected m \<longrightarrow>
        shared_connectClient (Some err) m = (Throw err, [ClientConnect, LoggedFailure err], m)
        \<and> ClientConnect \<in> set (fst (snd (shared_connectClient answer m))))"
  using module_run_connected [of m calls]
  by (auto simp add: shared_connectClient_def shared_client_end_def split: option.splits)

theorem shared_connectClient_idempotent_witness:
  "module_run [CallConnect (Some (DriverError ''ECONNREFUSED'')), CallConnect None,
               CallConnect None, CallEnd, CallConnect (Some (DriverError ''ended''))]
     initial_module =
     ([ClientConnect, LoggedFailure (DriverError ''ECONNREFUSED''), ClientConnect, ClientEnd],
      \<lparr>isConnected = True, client_ended = True\<rparr>)
   \<and> isConnected (snd (module_run [CallEnd, CallConnect None] \<lparr>isConnected = True, client_ended = False\<rparr>))
   \<and> shared_connectClient (Some (DriverError ''ECONNREFUSED'')) initial_module =
       (Throw (DriverError ''ECONNREFUSED''),
        [ClientConnect, LoggedFailure (DriverError ''ECONNREFUSED'')], initial_module)"
  using shared_connectClient_idempotent
      [of "\<lparr>isConnected = True, client_ended = False\<rparr>" None "[CallEnd, CallConnect None]"
          "DriverError ''ECONNREFUSED''"]
    shared_connectClient_idempotent
      [of initial_module None "[]" "DriverError ''ECONNREFUSED''"]
  by (simp add: initial_module_def shared_connectClient_def shared_client_end_def)

subsection \<open>Failures in the read operations\<close>

lemma fetchRevenue_refused:
  "connect_fault E = Some e \<Longrightarrow> fetchRevenue E db = (Throw e, [ConnectFailed e], db)"
  by (simp add: fetchRevenue_def io_defs Let_def)

lemma fetchRevenue_rejected:
  "connect_fault E = None \<Longrightarrow>
   statement_result E SELECT_revenue
     select_revenue db = Inl e \<Longrightarrow>
   fetchRevenue E db =
     (Throw (Error ''Failed to fetch revenue data.''),
      [Connected, Query SELECT_revenue,
       ConsoleError ''Database Error:'' e, End], db)"
  by (simp add: fetchRevenue_def io_defs Let_def)

lemma fetchRevenue_closes: "closes_what_it_opened (events (fetchRevenue E db))"
  by (cases "connect_fault E";
      cases "statement_result E SELECT_revenue
               select_revenue db")
     (simp_all add: fetchRevenue_def io_defs Let_def closes_what_it_opened_def)

lemma fetchLatestInvoices_refused:
  "connect_fault E = Some e \<Longrightarrow> fetchLatestInvoices E db = (Throw e, [ConnectFailed e], db)"
  by (simp add: fetchLatestInvoices_def io_defs Let_def)

lemma fetchLatestInvoices_rejected:
  "connect_fault E = None \<Longrightarrow>
   statement_result E SELECT_latest_invoices
     select_latest_invoices db = Inl e \<Longrightarrow>
   fetchLatestInvoices E db =
     (Throw (Error ''Failed to fetch the latest invoices.''),
      [Connected, Query SELECT_latest_invoices,
       ConsoleError ''Database Error:'' e, End], db)"
  by (simp add: fetchLatestInvoices_def io_defs Let_def)

lemma fetchLatestInvoices_closes: "closes_what_it_opened (events (fetchLatestInvoices E db))"
  by (cases "connect_fault E";
      cases "statement_result E SELECT_latest_invoices
               select_latest_invoices db")
     (simp_all add: fetchLatestInvoices_def io_defs Let_def closes_what_it_opened_def)

lemma fetchFilteredInvoices_refused:
  "connect_fault E = Some e \<Longrightarrow> fetchFilteredInvoices E query page db = (Throw e, [ConnectFailed e], db)"
  by (simp add: fetchFilteredInvoices_def io_defs Let_def)

lemma fetchFilteredInvoices_rejected:
  "connect_fault E = None \<Longrightarrow>
   statement_result E (SELECT_filtered_invoices (''%'' @ query @ ''%'') ITEMS_PER_PAGE ((page - 1) * ITEMS_PER_PAGE))
     (select_filtered_invoices E (''%'' @ query @ ''%'') ITEMS_PER_PAGE ((page - 1) * ITEMS_PER_PAGE)) db = Inl e \<Longrightarrow>
   fetchFilteredInvoices E query page db =
     (Throw (Error ''Failed to fetch invoices.''),
      [Connected, Query (SELECT_filtered_invoices (''%'' @ query @ ''%'') ITEMS_PER_PAGE ((page - 1) * ITEMS_PER_PAGE)),
       ConsoleError ''Database Error:'' e, End], db)"
  by (simp add: fetchFilteredInvoices_def io_defs Let_def)

lemma fetchFilteredInvoices_closes: "closes_what_it_opened (events (fetchFilteredInvoices E query page db))"
  by (cases "connect_fault E";
      cases "statement_result E (SELECT_filtered_invoices (''%'' @ query @ ''%'') ITEMS_PER_PAGE ((page - 1) * ITEMS_PER_PAGE))
               (select_filtered_invoices E (''%'' @ query @ ''%'') ITEMS_PER_PAGE ((page - 1) * ITEMS_PER_PAGE)) db")
     (simp_all add: fetchFilteredInvoices_def io_defs Let_def closes_what_it_opened_def)

lemma fetchInvoicesPages_refused:
  "connect_fault E = Some e \<Longrightarrow> fetchInvoicesPages E query db = (Throw e, [ConnectFailed e], db)"
  by (simp add: fetchInvoicesPages_def io_defs Let_def)

lemma fetchInvoicesPages_rejected:
  "connect_fault E = None \<Longrightarrow>
   statement_result E (SELECT_COUNT_filtered_invoices (''%'' @ query @ ''%''))
     (select_count_filtered_invoices E (''%'' @ query @ ''%'')) db = Inl e \<Longrightarrow>
   fetchInvoicesPages E query db =
     (Throw (Error ''Failed to fetch total number of invoices.''),
      [Connected, Query (SELECT_COUNT_filtered_invoices (''%'' @ query @ ''%'')),
       ConsoleError ''Database Error:'' e, End], db)"
  by (simp add: fetchInvoicesPages_def io_defs Let_def)

lemma fetchInvoicesPages_closes: "closes_what_it_opened (events (fetchInvoicesPages E query db))"
  by (cases "connect_fault E";
      cases "statement_result E (SELECT_COUNT_filtered_invoices (''%'' @ query @ ''%''))
               (select_count_filtered_invoices E (''%'' @ query @ ''%'')) db")
     (simp_all add: fetchInvoicesPages_def io_defs Let_def closes_what_it_opened_def)

lemma fetchInvoiceById_refused:
  "connect_fault E = Some e \<Longrightarrow> fetchInvoiceById E ident db = (Throw e, [ConnectFailed e], db)"
  by (simp add: fetchInvoiceById_def io_defs Let_def)

lemma fetchInvoiceById_rejected:
  "connect_fault E = None \<Longrightarrow>
   statement_result E (SELECT_invoice_by_id ident)
     (select_invoice_by_id ident) db = Inl e \<Longrightarrow>
   fetchInvoiceById E ident db =
     (Throw (Error ''Failed to fetch invoice.''),
      [Connected, Query (SELECT_invoice_by_id ident),
       ConsoleError ''Database Error:'' e, End], db)"
  by (simp add: fetchInvoiceById_def io_defs Let_def)

lemma fetchInvoiceById_closes: "closes_what_it_opened (events (fetchInvoiceById E ident db))"
  by (cases "connect_fault E";
      cases "statement_result E (SELECT_invoice_by_id ident)
               (select_invoice_by_id ident) db")
     (simp_all add: fetchInvoiceById_def io_defs Let_def closes_what_it_opened_def)

lemma fetchCustomers_refused:
  "connect_fault E = Some e \<Longrightarrow> fetchCustomers E db = (Throw e, [ConnectFailed e], db)"
  by (simp add: fetchCustomers_def io_defs Let_def)

lemma fetchCustomers_rejected:
  "connect_fault E = None \<Longrightarrow>
   statement_result E SELECT_customers
     select_customers db = Inl e \<Longrightarrow>
   fetchCustomers E db =
     (Throw (Error ''Failed to fetch all customers.''),
      [Connected, Query SELECT_customers,
       ConsoleError ''Database Error:'' e, End], db)"
  by (simp add: fetchCustomers_def io_defs Let_def)

lemma fetchCustomers_closes: "closes_what_it_opened (events (fetchCustomers E db))"
  by (cases "connect_fault E";
      cases "statement_result E SELECT_customers
               select_customers db")
     (simp_all add: fetchCustomers_def io_defs Let_def closes_what_it_opened_def)

lemma fetchFilteredCustomers_refused:
  "connect_fault E = Some e \<Longrightarrow> fetchFilteredCustomers E query db = (Throw e, [ConnectFailed e], db)"
  by (simp add: fetchFilteredCustomers_def io_defs Let_def)

lemma fetchFilteredCustomers_rejected:
  "connect_fault E = None \<Longrightarrow>
   statement_result E (SELECT_filtered_customers (''%'' @ query @ ''%''))
     (select_filtered_customers E (''%'' @ query @ ''%'')) db = Inl e \<Longrightarrow>
   fetchFilteredCustomers E query db =
     (Throw (Error ''Failed to fetch customer table.''),
      [Connected, Query (SELECT_filtered_customers (''%'' @ query @ ''%'')),
       ConsoleError ''Database Error:'' e, End], db)"
  by (simp add: fetchFilteredCustomers_def io_defs Let_def)

lemma fetchFilteredCustomers_closes: "closes_what_it_opened (events (fetchFilteredCustomers E query db))"
  by (cases "connect_fault E";
      cases "statement_result E (SELECT_filtered_customers (''%'' @ query @ ''%''))
               (select_filtered_customers E (''%'' @ query @ ''%'')) db")
     (simp_all add: fetchFilteredCustomers_def io_defs Let_def closes_what_it_opened_def)

lemma getUser_refused:
  "connect_fault E = Some e \<Longrightarrow> getUser E email db = (Throw e, [ConnectFailed e], db)"
  by (simp add: getUser_def io_defs Let_def)

lemma getUser_rejected:
  "connect_fault E = None \<Longrightarrow>
   statement_result E (SELECT_user_by_email email)
     (select_user_by_email email) db = Inl e \<Longrightarrow>
   getUser E email db =
     (Throw (Error ''Failed to fetch user.''),
      [Connected, Query (SELECT_user_by_email email),
       ConsoleError ''Failed to fetch user:'' e, End], db)"
  by (simp add: getUser_def io_defs Let_def)

lemma getUser_closes: "closes_what_it_opened (events (getUser E email db))"
  by (cases "connect_fault E";
      cases "statement_result E (SELECT_user_by_email email)
               (select_user_by_email email) db")
     (simp_all add: getUser_def io_defs Let_def closes_what_it_opened_def)

lemma fetchCardData_refused:
  "connect_fault E = Some e \<Longrightarrow> fetchCardData E db = (Throw e, [ConnectFailed e], db)"
  by (simp add: fetchCardData_def io_defs Let_def)

lemma fetchCardData_rejected:
  assumes "connect_fault E = None"
    and "statement_result E SELECT_COUNT_invoices select_count_invoices db = Inl e
         \<or> statement_result E SELECT_COUNT_invoices select_count_invoices db = Inr a
            \<and> statement_result E SELECT_COUNT_customers select_count_customers db = Inl e
         \<or> statement_result E SELECT_COUNT_invoices select_count_invoices db = Inr a
            \<and> statement_result E SELECT_COUNT_customers select_count_customers db = Inr b
            \<and> statement_result E SELECT_SUM_by_status select_sum_by_status db = Inl e"
  shows "fetchCardData E db =
           (Throw (Error ''Failed to fetch card data.''),
            [Connected, Query SELECT_COUNT_invoices, Query SELECT_COUNT_customers,
             Query SELECT_SUM_by_status, ConsoleError ''Database Error:'' e, End], db)"
  using assms
  by (auto simp add: fetchCardData_def Promise_all3_def io_defs)

lemma fetchCardData_closes: "closes_what_it_opened (events (fetchCardData E db))"
  by (cases "connect_fault E";
      cases "statement_result E SELECT_COUNT_invoices select_count_invoices db";
      cases "statement_result E SELECT_COUNT_customers select_count_customers db";
      cases "statement_result E SELECT_SUM_by_status select_sum_by_status db")
     (simp_all add: fetchCardData_def Promise_all3_def io_defs closes_what_it_opened_def
        split: prod.splits)


text \<open>
  C2, as stated, fails where the connection cannot be established: \<open>connectClient\<close> is
  called before the \<open>try\<close> statement, so its rejection is neither caught nor logged
  and reaches the caller as it is.
\<close>

theorem fetchRevenue_connection_failure_not_translated:
  "fetchRevenue refusing_env (sample_database 0) =
     (Throw (DriverError ''ECONNREFUSED''), [ConnectFailed (DriverError ''ECONNREFUSED'')],
      sample_database 0)
   \<and> completion (fetchRevenue refusing_env (sample_database 0))
       \<noteq> Throw (Error ''Failed to fetch revenue data.'')"
proof -
  have "connect_fault refusing_env = Some (DriverError ''ECONNREFUSED'')"
    by (simp add: refusing_env_def)
  from fetchRevenue_refused [OF this] show ?thesis
    by (simp add: completion_def)
qed

text \<open>
  C2, amended: in each of the nine read operations, a statement that fails once the
  connection is open is caught, logged with \<open>console.error\<close>, and replaced by a new
  \<open>Error\<close> that carries only the operation's message \<open>Failed to fetch ... .\<close>; the
  connection is then closed. (In \<open>fetchCardData\<close> the failure that is logged is the first
  of the three statements to fail.) A failure to connect is thrown to the caller
  unchanged, with nothing logged.
\<close>

theorem read_operations_translate_statement_failures:
  "
(connect_fault E = None \<and>
    statement_result E SELECT_revenue
      select_revenue db = Inl e
    \<longrightarrow> fetchRevenue E db =
          (Throw (Error ''Failed to fetch revenue data.''),
           [Connected, Query SELECT_revenue,
            ConsoleError ''Database Error:'' e, End], db)) \<and>
   (connect_fault E = None \<and>
    statement_result E SELECT_latest_invoices
      select_latest_invoices db = Inl e
    \<longrightarrow> fetchLatestInvoices E db =
          (Throw (Error ''Failed to fetch the latest invoices.''),
           [Connected, Query SELECT_latest_invoices,
            ConsoleError ''Database Error:'' e, End], db)) \<and>
   (connect_fault E = None \<and>
    statement_result E (SELECT_filtered_invoices (''%'' @ query @ ''%'') ITEMS_PER_PAGE ((page - 1) * ITEMS_PER_PAGE))
      (select_filtered_invoices E (''%'' @ query @ ''%'') ITEMS_PER_PAGE ((page - 1) * ITEMS_PER_PAGE)) db = Inl e
    \<longrightarrow> fetchFilteredInvoices E query page db =
          (Throw (Error ''Failed to fetch invoices.''),
           [Connected, Query (SELECT_filtered_invoices (''%'' @ query @ ''%'') ITEMS_PER_PAGE ((page - 1) * ITEMS_PER_PAGE)),
            ConsoleError ''Database Error:'' e, End], db)) \<and>
   (connect_fault E = None \<and>
    statement_result E (SELECT_COUNT_filtered_invoices (''%'' @ query @ ''%''))
      (select_count_filtered_invoices E (''%'' @ query @ ''%'')) db = Inl e
    \<longrightarrow> fetchInvoicesPages E query db =
          (Throw (Error ''Failed to fetch total number of invoices.''),
           [Connected, Query (SELECT_COUNT_filtered_invoices (''%'' @ query @ ''%'')),
            ConsoleError ''Database Error:'' e, End], db)) \<and>
   (connect_fault E = None \<and>
    statement_result E (SELECT_invoice_by_id ident)
      (select_invoice_by_id ident) db = Inl e
    \<longrightarrow> fetchInvoiceById E ident db =
          (Throw (Error ''Failed to fetch invoice.''),
           [Connected, Query (SELECT_invoice_by_id ident),
            ConsoleError ''Database Error:'' e, End], db)) \<and>
   (connect_fault E = None \<and>
    statement_result E SELECT_customers
      select_customers db = Inl e
    \<longrightarrow> fetchCustomers E db =
          (Throw (Error ''Failed to fetch all customers.''),
           [Connected, Query SELECT_customers,
            ConsoleError ''Database Error:'' e, End], db)) \<and>
   (connect_fault E = None \<and>
    statement_result E (SELECT_filtered_customers (''%'' @ query @ ''%''))
      (select_filtered_customers E (''%'' @ query @ ''%'')) db = Inl e
    \<longrightarrow> fetchFilteredCustomers E query db =
          (Throw (Error ''Failed to fetch customer table.''),
           [Connected, Query (SELECT_filtered_customers (''%'' @ query @ ''%'')),
            ConsoleError ''Database Error:'' e, End], db)) \<and>
   (connect_fault E = None \<and>
    statement_result E (SELECT_user_by_email email)
      (select_user_by_email email) db = Inl e
    \<longrightarrow> getUser E email db =
          (Throw (Error ''Failed to fetch user.''),
           [Connected, Query (SELECT_user_by_email email),
            ConsoleError ''Failed to fetch user:'' e, End], db)) \<and>
   (connect_fault E = None \<and>
    (statement_result E SELECT_COUNT_invoices select_count_invoices db = Inl e
     \<or> statement_result E SELECT_COUNT_invoices select_count_invoices db = Inr a
        \<and> statement_result E SELECT_COUNT_customers select_count_customers db = Inl e
     \<or> statement_result E SELECT_COUNT_invoices select_count_invoices db = Inr a
        \<and> statement_result E SELECT_COUNT_customers select_count_customers db = Inr b
        \<and> statement_result E SELECT_SUM_by_status select_sum_by_status db = Inl e)
    \<longrightarrow> fetchCardData E db =
          (Throw (Error ''Failed to fetch card data.''),
           [Connected, Query SELECT_COUNT_invoices, Query SELECT_COUNT_customers,
            Query SELECT_SUM_by_status, ConsoleError ''Database Error:'' e, End], db)) \<and>
   (connect_fault E = Some e
    \<longrightarrow> fetchRevenue E db = (Throw e, [ConnectFailed e], db) \<and>
      fetchLatestInvoices E db = (Throw e, [ConnectFailed e], db) \<and>
      fetchFilteredInvoices E query page db = (Throw e, [ConnectFailed e], db) \<and>
      fetchInvoicesPages E query db = (Throw e, [ConnectFailed e], db) \<and>
      fetchInvoiceById E ident db = (Throw e, [ConnectFailed e], db) \<and>
      fetchCustomers E db = (Throw e, [ConnectFailed e], db) \<and>
      fetchFilteredCustomers E query db = (Throw e, [ConnectFailed e], db) \<and>
      getUser E email db = (Throw e, [ConnectFailed e], db) \<and>
      fetchCardData E db = (Throw e, [ConnectFailed e], db))"

proof -
  have 1: "connect_fault E = Some e
    \<longrightarrow> fetchRevenue E db = (Throw e, [ConnectFailed e], db) \<and>
      fetchLatestInvoices E db = (Throw e, [ConnectFailed e], db) \<and>
      fetchFilteredInvoices E query page db = (Throw e, [ConnectFailed e], db) \<and>
      fetchInvoicesPages E query db = (Throw e, [ConnectFailed e], db) \<and>
      fetchInvoiceById E ident db = (Throw e, [ConnectFailed e], db) \<and>
      fetchCustomers E db = (Throw e, [ConnectFailed e], db) \<and>
      fetchFilteredCustomers E query db = (Throw e, [ConnectFailed e], db) \<and>
      getUser E email db = (Throw e, [ConnectFailed e], db) \<and>
      fetchCardData E db = (Throw e, [ConnectFailed e], db)"
    by (simp add: fetchRevenue_refused fetchLatestInvoices_refused fetchFilteredInvoices_refused
        fetchInvoicesPages_refused fetchInvoiceById_refused fetchCustomers_refused
        fetchFilteredCustomers_refused getUser_refused fetchCardData_refused)
  show ?thesis
    apply (intro conjI)
    subgoal by (simp add: fetchRevenue_rejected)
    subgoal by (simp add: fetchLatestInvoices_rejected)
    subgoal by (simp add: fetchFilteredInvoices_rejected)
    subgoal by (simp add: fetchInvoicesPages_rejected)
    subgoal by (simp add: fetchInvoiceById_rejected)
    subgoal by (simp add: fetchCustomers_rejected)
    subgoal by (simp add: fetchFilteredCustomers_rejected)
    subgoal by (simp add: getUser_rejected)
    subgoal using fetchCardData_rejected [of E db e a b] by blast
    subgoal by (rule 1)
    done
qed


theorem read_operations_translate_statement_failures_witness:
  "fetchRevenue failing_env (sample_database 7) =
     (Throw (Error ''Failed to fetch revenue data.''),
      [Connected, Query SELECT_revenue,
       ConsoleError ''Database Error:'' (DriverError ''syntax error''), End], sample_database 7)
   \<and> getUser failing_env ''ada@example.com'' (sample_database 7) =
     (Throw (Error ''Failed to fetch user.''),
      [Connected, Query (SELECT_user_by_email ''ada@example.com''),
       ConsoleError ''Failed to fetch user:'' (DriverError ''syntax error''), End], sample_database 7)
   \<and> fetchCardData failing_env (sample_database 7) =
     (Throw (Error ''Failed to fetch card data.''),
      [Connected, Query SELECT_COUNT_invoices, Query SELECT_COUNT_customers,
       Query SELECT_SUM_by_status,
       ConsoleError ''Database Error:'' (DriverError ''syntax error''), End], sample_database 7)
   \<and> fetchInvoiceById refusing_env ''i1'' (sample_database 7) =
     (Throw (DriverError ''ECONNREFUSED''), [ConnectFailed (DriverError ''ECONNREFUSED'')],
      sample_database 7)"
  using read_operations_translate_statement_failures
      [where E = failing_env and db = "sample_database 7" and e = "DriverError ''syntax error''"
         and email = "''ada@example.com''"]
    read_operations_translate_statement_failures
      [where E = refusing_env and db = "sample_database 7" and e = "DriverError ''ECONNREFUSED''"
         and ident = "''i1''"]
  by (simp add: failing_env_def refusing_env_def sample_env_def statement_result_def)

subsection \<open>Every run closes what it opened\<close>

lemma connection_after_counts:
  "connection_after s evs = Some s' \<Longrightarrow>
   (s = Unopened \<and> s' = Unopened \<longrightarrow> count_list evs Connected = 0 \<and> count_list evs End = 0) \<and>
   (s = Unopened \<and> s' = Closed \<longrightarrow> count_list evs Connected = 1 \<and> count_list evs End = 1) \<and>
   (s = Unopened \<and> s' = Open \<longrightarrow> count_list evs Connected = 1 \<and> count_list evs End = 0) \<and>
   (s = Open \<and> s' = Open \<longrightarrow> count_list evs Connected = 0 \<and> count_list evs End = 0) \<and>
   (s = Open \<and> s' = Closed \<longrightarrow> count_list evs Connected = 0 \<and> count_list evs End = 1) \<and>
   (s = Closed \<longrightarrow> s' = Closed \<and> count_list evs Connected = 0 \<and> count_list evs End = 0) \<and>
   (s = Open \<longrightarrow> s' \<noteq> Unopened)"
  by (induction s evs arbitrary: s' rule: connection_after.induct)
     (auto split: if_splits)

lemma closes_what_it_opened_counts:
  "closes_what_it_opened evs \<Longrightarrow>
   count_list evs End = count_list evs Connected \<and> count_list evs Connected \<le> 1"
  unfolding closes_what_it_opened_def
  using connection_after_counts [of Unopened evs Unopened]
    connection_after_counts [of Unopened evs Closed]
  by auto

lemma createInvoice_events:
  "events (createInvoice E formData db) = [ConsoleLog ''validatedFields'']"
  by (cases "safeParse E formData")
     (simp_all add: createInvoice_def io_defs read_identifier_def actions_module_scope_def
        import_from_data_def data_module_exports_def Let_def)

lemma createInvoice_invalid:
  "safeParse E formData = Inl issues \<Longrightarrow>
   createInvoice E formData db =
     (Return (Some \<lparr>errors = Some (fieldErrors issues),
                     message = Some ''Missing Fields. Failed to Create Invoice''\<rparr>),
      [ConsoleLog ''validatedFields''], db)"
  by (simp add: createInvoice_def io_defs Let_def)

lemma updateInvoice_events: "events (updateInvoice E ident formData db) = []"
  by (cases "safeParse E formData")
     (simp_all add: updateInvoice_invalid updateInvoice_valid events_def)

lemma deleteInvoice_events: "events (deleteInvoice E ident db) = []"
  by (simp add: deleteInvoice_throws events_def)

text \<open>
  C4: in every run of every exported operation, whatever the server answers, either no
  connection is opened and none is closed, or exactly one is opened and it is closed
  exactly once, after the last statement. The nine read operations close on a normal
  return and when the error of a statement is caught and replaced; when the connection
  is refused there is none to close. The three actions never come to open one:
  \<open>createInvoice\<close> produces its log line only, on a form that fails the schema (where it
  returns the payload and leaves the store as it was) and on one that passes;
  \<open>updateInvoice\<close> and \<open>deleteInvoice\<close> produce no event at all.
\<close>

theorem every_operation_closes_its_connection_once:
  "closes_what_it_opened (events (fetchRevenue E db)) \<and>
   closes_what_it_opened (events (fetchLatestInvoices E db)) \<and>
   closes_what_it_opened (events (fetchCardData E db)) \<and>
   closes_what_it_opened (events (fetchFilteredInvoices E query page db)) \<and>
   closes_what_it_opened (events (fetchInvoicesPages E query db)) \<and>
   closes_what_it_opened (events (fetchInvoiceById E ident db)) \<and>
   closes_what_it_opened (events (fetchCustomers E db)) \<and>
   closes_what_it_opened (events (fetchFilteredCustomers E query db)) \<and>
   closes_what_it_opened (events (getUser E email db)) \<and>
   closes_what_it_opened (events (createInvoice E formData db)) \<and>
   closes_what_it_opened (events (updateInvoice E ident formData db)) \<and>
   closes_what_it_opened (events (deleteInvoice E ident db)) \<and>
   (safeParse E formData = Inl issues \<longrightarrow>
      events (createInvoice E formData db) = [ConsoleLog ''validatedFields''] \<and>
      store (createInvoice E formData db) = db) \<and>
   events (createInvoice E formData db) = [ConsoleLog ''validatedFields''] \<and>
   events (updateInvoice E ident formData db) = [] \<and>
   events (deleteInvoice E ident db) = []"
proof -
  have "safeParse E formData = Inl issues \<longrightarrow>
      events (createInvoice E formData db) = [ConsoleLog ''validatedFields''] \<and>
      store (createInvoice E formData db) = db"
    by (simp add: createInvoice_invalid events_def store_def)
  moreover have "closes_what_it_opened [ConsoleLog ''validatedFields'']"
    and "closes_what_it_opened []"
    by (simp_all add: closes_what_it_opened_def)
  ultimately show ?thesis
    by (simp only: fetchRevenue_closes fetchLatestInvoices_closes fetchCardData_closes
        fetchFilteredInvoices_closes fetchInvoicesPages_closes fetchInvoiceById_closes
        fetchCustomers_closes fetchFilteredCustomers_closes getUser_closes
        createInvoice_events updateInvoice_events deleteInvoice_events simp_thms)
qed

theorem every_operation_closes_its_connection_once_witness:
  "safeParse sample_env [(''amount'', Text ''0'')] =
     Inl [Issue ''customerId'' ''Please select a customer.'',
          Issue ''amount'' ''Please enter an amount greater than $0.'',
          Issue ''status'' ''Please select an invoice status.'']
   \<and> events (createInvoice sample_env [(''amount'', Text ''0'')] (sample_database 7))
       = [ConsoleLog ''validatedFields'']
   \<and> store (createInvoice sample_env [(''amount'', Text ''0'')] (sample_database 7))
       = sample_database 7
   \<and> events (fetchInvoiceById failing_env ''i1'' (sample_database 7))
       = [Connected, Query (SELECT_invoice_by_id ''i1''),
          ConsoleError ''Database Error:'' (DriverError ''syntax error''), End]
   \<and> closes_what_it_opened (events (fetchInvoiceById failing_env ''i1'' (sample_database 7)))
   \<and> events (deleteInvoice failing_env ''i1'' (sample_database 7)) = []"
proof -
  have p: "safeParse sample_env [(''amount'', Text ''0'')] =
     Inl [Issue ''customerId'' ''Please select a customer.'',
          Issue ''amount'' ''Please enter an amount greater than $0.'',
          Issue ''status'' ''Please select an invoice status.'']"
    by (simp add: safeParse_def field_issues_def issues_of_def z_customerId_def z_amount_def
        z_status_def coerce_number_def get_def sample_env_def)
  have d: "events (fetchInvoiceById failing_env ''i1'' (sample_database 7))
       = [Connected, Query (SELECT_invoice_by_id ''i1''),
          ConsoleError ''Database Error:'' (DriverError ''syntax error''), End]"
    by (simp add: fetchInvoiceById_def io_defs statement_result_def failing_env_def sample_env_def)
  show ?thesis
    using every_operation_closes_its_connection_once
        [where E = sample_env and formData = "[(''amount'', Text ''0'')]"
           and db = "sample_database 7" and
           issues = "[Issue ''customerId'' ''Please select a customer.'',
          Issue ''amount'' ''Please enter an amount greater than $0.'',
          Issue ''status'' ''Please select an invoice status.'']"]
      every_operation_closes_its_connection_once
        [where E = failing_env and ident = "''i1''" and db = "sample_database 7"]
      p d
    by simp
qed

end
